theory Spec2Isabelle
  imports Main "HOL-Library.AList"
begin

section \<open>JavaScript values, thrown values and outcomes of calls\<close>

text \<open>
  The TypeScript source types most payloads as \<open>unknown\<close> and tests them at run time
  (\<open>typeof\<close>, truthiness, \<open>instanceof Error\<close>), so the model carries an explicit type of
  JavaScript values. A string is the list of the bytes of its UTF-8 encoding: a character
  of ASCII is one byte, any other character is two to four bytes, none of them an ASCII
  byte. The source compares strings, tests them for emptiness, lower-cases, trims and
  splits them and matches them against ASCII character classes; it never counts or
  indexes their characters. A template literal such as \<^verbatim>\<open>`Plugin '${config.name}' is already installed`\<close> is kept as
  the list of its pieces (literal chunks as \<open>Str\<close>, interpolated values as they are), so no
  number or object printing has to be invented.

  An error object carries the class it was constructed with, its message and its own
  properties. The classes are those of \<^verbatim>\<open>src/errors/index.ts\<close>; every one of them extends
  \<open>Error\<close>. The creation timestamp and the stack are left out. \<open>Builtin k\<close> is the
  function or object that every plain object inherits under the name \<open>k\<close>.
\<close>

datatype error_class =
  Error | ValidationError | TemplateError | FileSystemError | DependencyError
  | PluginError | ReadlineError | ConfigurationError | NetworkError | ProcessError

datatype js_value =
  Undefined
  | Null
  | Bool bool
  | Num int
  | Str string
  | Arr "js_value list"
  | Obj "(string \<times> js_value) list"
  | ErrorObj error_class "js_value list" "(string \<times> js_value) list"
  | Builtin string

type_synonym text_pieces = "js_value list"

fun truthy :: "js_value \<Rightarrow> bool" where
  "truthy Undefined = False"
| "truthy Null = False"
| "truthy (Bool b) = b"
| "truthy (Num n) = (n \<noteq> 0)"
| "truthy (Str s) = (s \<noteq> [])"
| "truthy (Arr _) = True"
| "truthy (Obj _) = True"
| "truthy (ErrorObj _ _ _) = True"
| "truthy (Builtin _) = True"

fun is_string :: "js_value \<Rightarrow> bool" where
  "is_string (Str _) = True"
| "is_string _ = False"

fun instanceof_Error :: "js_value \<Rightarrow> bool" where
  "instanceof_Error (ErrorObj _ _ _) = True"
| "instanceof_Error _ = False"

fun message :: "js_value \<Rightarrow> text_pieces" where
  "message (ErrorObj _ m _) = m"
| "message _ = [Undefined]"

text \<open>
  A call returns, throws (an \<open>await\<close>ed promise rejects), or never comes back: the line
  reader is out of input, or an awaited promise never settles.
\<close>

datatype 'a outcome = Returns 'a | Throws js_value | Pending

text \<open>An interpolated value between single quotes, as in \<^verbatim>\<open>'${config.name}'\<close>.\<close>

definition quoted :: "js_value \<Rightarrow> text_pieces" where
  "quoted v = [Str [CHR 0x27], v, Str [CHR 0x27]]"


section \<open>Strings as the prompt handlers read them\<close>

text \<open>
  \<open>toLowerCase\<close> on ASCII letters; every other byte is left as it is. The source only
  looks the result up among \<open>y\<close>, \<open>yes\<close>, \<open>true\<close> and \<open>1\<close>, and no character
  outside ASCII lower-cases to a letter of these (the Kelvin sign gives \<open>k\<close>, the dotted
  capital I gives \<open>i\<close> and a combining dot; every other one stays outside ASCII).
\<close>

definition lower_char :: "char \<Rightarrow> char" where
  "lower_char c =
     (case map_of (zip ''ABCDEFGHIJKLMNOPQRSTUVWXYZ'' ''abcdefghijklmnopqrstuvwxyz'') c of
        Some d \<Rightarrow> d
      | None \<Rightarrow> c)"

definition toLowerCase :: "string \<Rightarrow> string" where
  "toLowerCase s = map lower_char s"

text \<open>
  White space as \<open>String.prototype.trim\<close> and \<open>parseInt\<close> skip it: the \<open>WhiteSpace\<close> and
  \<open>LineTerminator\<close> characters of ECMAScript, that is U+0009 to U+000D, U+0020, U+00A0,
  U+1680, U+2000 to U+200A, U+2028, U+2029, U+202F, U+205F, U+3000 and U+FEFF, each as
  its UTF-8 bytes.
\<close>

definition is_whitespace :: "string \<Rightarrow> bool" where
  "is_whitespace w =
     (w \<in> set [[CHR 0x09], [CHR 0x0A], [CHR 0x0B], [CHR 0x0C], [CHR 0x0D], [CHR 0x20],
                [CHR 0xC2, CHR 0xA0],
                [CHR 0xE1, CHR 0x9A, CHR 0x80],
                [CHR 0xE2, CHR 0x80, CHR 0x80], [CHR 0xE2, CHR 0x80, CHR 0x81],
                [CHR 0xE2, CHR 0x80, CHR 0x82], [CHR 0xE2, CHR 0x80, CHR 0x83],
                [CHR 0xE2, CHR 0x80, CHR 0x84], [CHR 0xE2, CHR 0x80, CHR 0x85],
                [CHR 0xE2, CHR 0x80, CHR 0x86], [CHR 0xE2, CHR 0x80, CHR 0x87],
                [CHR 0xE2, CHR 0x80, CHR 0x88], [CHR 0xE2, CHR 0x80, CHR 0x89],
                [CHR 0xE2, CHR 0x80, CHR 0x8A],
                [CHR 0xE2, CHR 0x80, CHR 0xA8], [CHR 0xE2, CHR 0x80, CHR 0xA9],
                [CHR 0xE2, CHR 0x80, CHR 0xAF],
                [CHR 0xE2, CHR 0x81, CHR 0x9F],
                [CHR 0xE3, CHR 0x80, CHR 0x80],
                [CHR 0xEF, CHR 0xBB, CHR 0xBF]])"

text \<open>
  \<open>skip white s\<close> drops from the front of \<open>s\<close> every character, of one to three bytes,
  that \<open>white\<close> accepts. \<open>trim\<close> does so at both ends; at the end the bytes of a
  character come in reverse.
\<close>

fun skip :: "(string \<Rightarrow> bool) \<Rightarrow> string \<Rightarrow> string" where
  "skip white (a # b # c # s) =
     (if white [a] then skip white (b # c # s)
      else if white [a, b] then skip white (c # s)
      else if white [a, b, c] then skip white s
      else a # b # c # s)"
| "skip white [a, b] =
     (if white [a] then skip white [b] else if white [a, b] then [] else [a, b])"
| "skip white [a] = (if white [a] then [] else [a])"
| "skip white [] = []"

definition trim :: "string \<Rightarrow> string" where
  "trim s = rev (skip (\<lambda>w. is_whitespace (rev w)) (rev (skip is_whitespace s)))"

text \<open>\<open>s.split(',')\<close>: the pieces between separators, empty pieces kept.\<close>

fun split :: "char \<Rightarrow> string \<Rightarrow> string list" where
  "split sep [] = [[]]"
| "split sep (c # cs) =
     (let r = split sep cs in
      if c = sep then [] # r else (c # hd r) # tl r)"

text \<open>
  \<open>parseInt(s)\<close> with no radix: leading white space is skipped, one sign is read, a
  \<open>0x\<close>/\<open>0X\<close> prefix switches to radix 16, and the longest run of digits is the
  number; with no digit the result is \<open>NaN\<close>, here \<open>None\<close>. JavaScript numbers are
  doubles: past \<open>2^53\<close> the value is rounded, which no range check against an array
  length can observe, so the model keeps the exact integer.
\<close>

definition digit_of :: "nat \<Rightarrow> char \<Rightarrow> nat option" where
  "digit_of radix c =
     (case map_of
        [(CHR ''0'', 0), (CHR ''1'', 1), (CHR ''2'', 2), (CHR ''3'', 3), (CHR ''4'', 4),
         (CHR ''5'', 5), (CHR ''6'', 6), (CHR ''7'', 7), (CHR ''8'', 8), (CHR ''9'', 9),
         (CHR ''a'', 10), (CHR ''b'', 11), (CHR ''c'', 12), (CHR ''d'', 13), (CHR ''e'', 14),
         (CHR ''f'', 15), (CHR ''A'', 10), (CHR ''B'', 11), (CHR ''C'', 12), (CHR ''D'', 13),
         (CHR ''E'', 14), (CHR ''F'', 15)] c of
        Some d \<Rightarrow> if d < radix then Some d else None
      | None \<Rightarrow> None)"

fun leading_digits :: "nat \<Rightarrow> string \<Rightarrow> nat list" where
  "leading_digits radix [] = []"
| "leading_digits radix (c # cs) =
     (case digit_of radix c of
        Some d \<Rightarrow> d # leading_digits radix cs
      | None \<Rightarrow> [])"

fun strip_sign :: "string \<Rightarrow> bool \<times> string" where
  "strip_sign (c # cs) =
     (if c = CHR ''-'' then (True, cs) else if c = CHR ''+'' then (False, cs)
      else (False, c # cs))"
| "strip_sign [] = (False, [])"

fun strip_prefix :: "string \<Rightarrow> nat \<times> string" where
  "strip_prefix (c # d # cs) =
     (if c = CHR ''0'' \<and> (d = CHR ''x'' \<or> d = CHR ''X'') then (16, cs)
      else (10, c # d # cs))"
| "strip_prefix cs = (10, cs)"

definition parseInt :: "string \<Rightarrow> int option" where
  "parseInt s =
     (let (negative, s1) = strip_sign (skip is_whitespace s);
          (radix, s2) = strip_prefix s1;
          ds = leading_digits radix s2
      in if ds = [] then None
         else Some ((if negative then - 1 else 1)
                    * int (foldl (\<lambda>acc d. acc * radix + d) 0 ds)))"


section \<open>The prompt resolution engine (\<open>src/core/cli-builder.ts\<close>)\<close>

text \<open>
  \<open>PromptResult\<close> is a JavaScript object used as a dictionary; it keeps insertion order,
  so it is an association list of its own properties. The source only ever reads it by
  key, \<open>answers[name]\<close>. Such a read finds the own property of that name; failing that,
  what the object inherits from \<open>Object.prototype\<close> (the answer sets are created as
  \<open>{}\<close> and \<open>{ ...answers }\<close>); and \<open>undefined\<close> otherwise. An assignment
  \<open>answers[name] = v\<close> sets an own property; the source reaches one only for a name that
  reads as \<open>undefined\<close> or for the fixed names \<open>projectName\<close> and \<open>template\<close>, never for
  an inherited name.
\<close>

type_synonym answers = "(string \<times> js_value) list"

definition Object_prototype :: "string list" where
  "Object_prototype =
     [''constructor'', ''__defineGetter__'', ''__defineSetter__'', ''hasOwnProperty'',
      ''__lookupGetter__'', ''__lookupSetter__'', ''isPrototypeOf'', ''propertyIsEnumerable'',
      ''toString'', ''valueOf'', ''__proto__'', ''toLocaleString'']"

definition get_answer :: "answers \<Rightarrow> string \<Rightarrow> js_value" where
  "get_answer a k =
     (case map_of a k of
        Some v \<Rightarrow> v
      | None \<Rightarrow> if k \<in> set Object_prototype then Builtin k else Undefined)"

datatype PromptType = input | select | confirm | multiselect

datatype ReadlineMode = async | sync

record Choice =
  choice_name :: string
  choice_value :: js_value
  choice_description :: "string option"

text \<open>
  The callbacks of a prompt (\<open>validate\<close>, \<open>when\<close>, \<open>transform\<close>) are pure total functions,
  as their declared types say. \<open>validate\<close> returns \<open>boolean | string\<close>, kept as a
  JavaScript value because the handler tests it with \<open>=== true\<close> and \<open>typeof\<close>. An
  absent \<open>default\<close> is \<open>Undefined\<close>: the source cannot tell the two apart.
\<close>

record ValidationRule =
  rule_validate :: "js_value \<Rightarrow> answers \<Rightarrow> js_value"
  rule_message :: "string option"

record PromptConfig =
  prompt_name :: string
  prompt_type :: PromptType
  prompt_message :: string
  prompt_default :: js_value
  prompt_choices :: "Choice list option"
  prompt_validate :: "ValidationRule option"
  prompt_when :: "(answers \<Rightarrow> bool) option"
  prompt_transform :: "(js_value \<Rightarrow> js_value) option"

text \<open>
  What the engine does to the outside: questions put to the line reader, lines shown
  through the UI manager (its colours and emoji prefixes are presentation and left out),
  and console output.
\<close>

datatype ui_event =
  Question text_pieces
  | ShowInfo text_pieces
  | ShowError text_pieces
  | ConsoleLog text_pieces
  | ConsoleLogAnswers answers
  | SetMode ReadlineMode

text \<open>
  The line reader is the list of lines the user will still type. \<open>question\<close> takes the
  first one; with none left its promise never resolves. Every handler returns its
  outcome, the lines left over and the events it issued, in order.
\<close>

type_synonym 'a asked = "'a outcome \<times> string list \<times> ui_event list"

definition question :: "text_pieces \<Rightarrow> string list \<Rightarrow> string asked" where
  "question query lines =
     (case lines of
        [] \<Rightarrow> (Pending, [], [Question query])
      | l # ls \<Rightarrow> (Returns l, ls, [Question query]))"

subsection \<open>\<open>handleInputPrompt\<close>\<close>

definition input_query :: "PromptConfig \<Rightarrow> text_pieces" where
  "input_query prompt =
     [Str (prompt_message prompt)]
     @ (if truthy (prompt_default prompt) then [Str '' ('', prompt_default prompt, Str '')'']
        else [])
     @ [Str '': '']"

definition validation_error :: "ValidationRule \<Rightarrow> js_value \<Rightarrow> text_pieces" where
  "validation_error rule validation =
     (if is_string validation then [validation]
      else (case rule_message rule of
              Some m \<Rightarrow> if m \<noteq> [] then [Str m] else [Str ''Invalid input'']
            | None \<Rightarrow> [Str ''Invalid input'']))"

fun handleInputPrompt :: "PromptConfig \<Rightarrow> answers \<Rightarrow> string list \<Rightarrow> js_value asked" where
  "handleInputPrompt prompt answers [] = (Pending, [], [Question (input_query prompt)])"
| "handleInputPrompt prompt answers (l # ls) =
     (let v = (if l = [] \<and> truthy (prompt_default prompt) then prompt_default prompt
               else Str l)
      in case prompt_validate prompt of
           None \<Rightarrow> (Returns v, ls, [Question (input_query prompt)])
         | Some rule \<Rightarrow>
             (let validation = rule_validate rule v answers in
              if validation = Bool True then (Returns v, ls, [Question (input_query prompt)])
              else (case handleInputPrompt prompt answers ls of
                      (out, ls', evs) \<Rightarrow>
                        (out, ls',
                         Question (input_query prompt)
                         # ShowError (validation_error rule validation) # evs))))"

subsection \<open>\<open>handleSelectPrompt\<close>\<close>

definition choice_line :: "nat \<Rightarrow> Choice \<Rightarrow> ui_event" where
  "choice_line index choice =
     ConsoleLog
       ([Num (int index + 1), Str ''. '', Str (choice_name choice)]
        @ (case choice_description choice of
             Some d \<Rightarrow> if d \<noteq> [] then [Str '' - '', Str d] else []
           | None \<Rightarrow> []))"

definition choice_lines :: "Choice list \<Rightarrow> ui_event list" where
  "choice_lines choices = map (\<lambda>(index, choice). choice_line index choice)
                             (zip [0 ..< length choices] choices)"

text \<open>\<open>index >= 0 && index < prompt.choices.length\<close>, with \<open>NaN\<close> failing both tests.\<close>

definition in_range :: "'a list \<Rightarrow> int option \<Rightarrow> bool" where
  "in_range choices index =
     (case index of None \<Rightarrow> False | Some i \<Rightarrow> 0 \<le> i \<and> i < int (length choices))"

definition minus_one :: "int option \<Rightarrow> int option" where
  "minus_one n = map_option (\<lambda>i. i - 1) n"

definition value_at :: "Choice list \<Rightarrow> int option \<Rightarrow> js_value" where
  "value_at choices index =
     (case index of
        None \<Rightarrow> Undefined
      | Some i \<Rightarrow> if 0 \<le> i \<and> i < int (length choices) then choice_value (choices ! nat i)
                 else Undefined)"

fun select_loop :: "Choice list \<Rightarrow> string list \<Rightarrow> js_value asked" where
  "select_loop choices [] = (Pending, [], [Question [Str ''\<newline>Select option: '']])"
| "select_loop choices (l # ls) =
     (let index = minus_one (parseInt l) in
      if in_range choices index
      then (Returns (value_at choices index), ls, [Question [Str ''\<newline>Select option: '']])
      else (case select_loop choices ls of
              (out, ls', evs) \<Rightarrow>
                (out, ls',
                 Question [Str ''\<newline>Select option: '']
                 # ShowError [Str ''Invalid selection. Please try again.''] # evs)))"

definition handleSelectPrompt :: "PromptConfig \<Rightarrow> answers \<Rightarrow> string list \<Rightarrow> js_value asked" where
  "handleSelectPrompt prompt answers lines =
     (case prompt_choices prompt of
        None \<Rightarrow> (Throws (ErrorObj Error [Str ''Select prompt requires choices''] []), lines, [])
      | Some choices \<Rightarrow>
          (case select_loop choices lines of
             (out, ls, evs) \<Rightarrow>
               (out, ls, ShowInfo [Str (prompt_message prompt)] # choice_lines choices @ evs)))"

subsection \<open>\<open>handleConfirmPrompt\<close>\<close>

definition confirm_query :: "PromptConfig \<Rightarrow> text_pieces" where
  "confirm_query prompt =
     [Str (prompt_message prompt),
      Str (if prompt_default prompt \<noteq> Undefined
           then (if truthy (prompt_default prompt) then '' (Y/n)'' else '' (y/N)'')
           else '' (y/N)''),
      Str '': '']"

text \<open>
  The statement under the source's \<open>TODO\<close>,
  \<^verbatim>\<open>if (!answer && prompt.default != null) { prompt.default }\<close>, evaluates an expression and
  drops it; it has no counterpart here.
\<close>

definition handleConfirmPrompt :: "PromptConfig \<Rightarrow> answers \<Rightarrow> string list \<Rightarrow> js_value asked" where
  "handleConfirmPrompt prompt answers lines =
     (case question (confirm_query prompt) lines of
        (Returns answer, ls, evs) \<Rightarrow>
          (Returns (Bool (toLowerCase answer \<in> set [''y'', ''yes'', ''true'', ''1''])), ls,
           evs @ [ConsoleLogAnswers answers])
      | (Throws e, ls, evs) \<Rightarrow> (Throws e, ls, evs)
      | (Pending, ls, evs) \<Rightarrow> (Pending, ls, evs))"

subsection \<open>\<open>handleMultiSelectPrompt\<close>\<close>

definition selected_values :: "Choice list \<Rightarrow> string \<Rightarrow> js_value list" where
  "selected_values choices answer =
     (let indices = map (\<lambda>s. minus_one (parseInt (trim s))) (split CHR '','' answer)
      in map (value_at choices) (filter (in_range choices) indices))"

definition handleMultiSelectPrompt ::
  "PromptConfig \<Rightarrow> answers \<Rightarrow> string list \<Rightarrow> js_value asked" where
  "handleMultiSelectPrompt prompt answers lines =
     (case prompt_choices prompt of
        None \<Rightarrow>
          (Throws (ErrorObj Error [Str ''MultiSelect prompt requires choices''] []), lines, [])
      | Some choices \<Rightarrow>
          (case question [Str ''\<newline>Select options: ''] lines of
             (Returns answer, ls, evs) \<Rightarrow>
               (Returns (Arr (selected_values choices answer)), ls,
                ShowInfo [Str (prompt_message prompt), Str '' (comma-separated numbers)'']
                # choice_lines choices @ evs)
           | (Throws e, ls, evs) \<Rightarrow>
               (Throws e, ls,
                ShowInfo [Str (prompt_message prompt), Str '' (comma-separated numbers)'']
                # choice_lines choices @ evs)
           | (Pending, ls, evs) \<Rightarrow>
               (Pending, ls,
                ShowInfo [Str (prompt_message prompt), Str '' (comma-separated numbers)'']
                # choice_lines choices @ evs)))"

subsection \<open>\<open>processPrompt\<close>, \<open>collectAnswers\<close> and \<open>fillDefaults\<close>\<close>

text \<open>
  \<open>PromptType\<close> is a closed union, so the \<open>default\<close> branch of the \<open>switch\<close> in
  \<open>processPrompt\<close> has no value to run on.
\<close>

definition processPrompt :: "PromptConfig \<Rightarrow> answers \<Rightarrow> string list \<Rightarrow> js_value asked" where
  "processPrompt prompt answers lines =
     (case prompt_type prompt of
        input \<Rightarrow> handleInputPrompt prompt answers lines
      | select \<Rightarrow> handleSelectPrompt prompt answers lines
      | confirm \<Rightarrow> handleConfirmPrompt prompt answers lines
      | multiselect \<Rightarrow> handleMultiSelectPrompt prompt answers lines)"



record CLIConfig =
  cfg_prompts :: "PromptConfig list"
  cfg_allowModeSelection :: bool


text \<open>
  The \<open>for\<close> loop of \<open>collectAnswers\<close>. Each event is paired with the name of the prompt
  being processed when it was issued.
\<close>

definition hidden :: "PromptConfig \<Rightarrow> answers \<Rightarrow> bool" where
  "hidden prompt answers =
     (case prompt_when prompt of None \<Rightarrow> False | Some w \<Rightarrow> \<not> w answers)"

definition answered :: "answers \<Rightarrow> string \<Rightarrow> bool" where
  "answered answers k = (get_answer answers k \<noteq> Undefined)"

definition transformed :: "PromptConfig \<Rightarrow> js_value \<Rightarrow> js_value" where
  "transformed prompt answer =
     (case prompt_transform prompt of None \<Rightarrow> answer | Some f \<Rightarrow> f answer)"

type_synonym 'a collected = "'a outcome \<times> string list \<times> (string option \<times> ui_event) list"

fun prompt_loop :: "PromptConfig list \<Rightarrow> answers \<Rightarrow> string list \<Rightarrow> answers collected" where
  "prompt_loop [] answers lines = (Returns answers, lines, [])"
| "prompt_loop (prompt # prompts) answers lines =
     (if hidden prompt answers then prompt_loop prompts answers lines
      else if answered answers (prompt_name prompt) then prompt_loop prompts answers lines
      else (case processPrompt prompt answers lines of
              (Returns answer, ls, evs) \<Rightarrow>
                (case prompt_loop prompts
                        (AList.update (prompt_name prompt) (transformed prompt answer) answers)
                        ls of
                   (out, ls', evs') \<Rightarrow>
                     (out, ls', map (Pair (Some (prompt_name prompt))) evs @ evs'))
            | (Throws e, ls, evs) \<Rightarrow>
                (Throws e, ls, map (Pair (Some (prompt_name prompt))) evs)
            | (Pending, ls, evs) \<Rightarrow>
                (Pending, ls, map (Pair (Some (prompt_name prompt))) evs)))"

fun fillDefaults_loop :: "PromptConfig list \<Rightarrow> answers \<Rightarrow> answers" where
  "fillDefaults_loop [] result = result"
| "fillDefaults_loop (prompt # prompts) result =
     fillDefaults_loop prompts
       (if get_answer result (prompt_name prompt) = Undefined
           \<and> prompt_default prompt \<noteq> Undefined
        then AList.update (prompt_name prompt) (prompt_default prompt) result
        else result)"

definition fillDefaults :: "'a CLIConfig_scheme \<Rightarrow> answers \<Rightarrow> answers" where
  "fillDefaults config answers = fillDefaults_loop (cfg_prompts config) answers"



section \<open>Errors of the library (\<open>src/errors/index.ts\<close>)\<close>

text \<open>
  \<open>new CLIError(message, code, context)\<close> sets the own properties \<open>code\<close> and \<open>context\<close>; an
  omitted context is the empty object. \<open>ErrorFactory\<close> picks the class and its code.
\<close>

definition new_CLIError ::
  "error_class \<Rightarrow> string \<Rightarrow> text_pieces \<Rightarrow> (string \<times> js_value) list \<Rightarrow> js_value" where
  "new_CLIError cls code msg context =
     ErrorObj cls msg [(''code'', Str code), (''context'', Obj context)]"

definition ErrorFactory_plugin :: "text_pieces \<Rightarrow> (string \<times> js_value) list \<Rightarrow> js_value" where
  "ErrorFactory_plugin msg context = new_CLIError PluginError ''PLUGIN_ERROR'' msg context"

definition ErrorFactory_filesystem :: "text_pieces \<Rightarrow> (string \<times> js_value) list \<Rightarrow> js_value" where
  "ErrorFactory_filesystem msg context =
     new_CLIError FileSystemError ''FILESYSTEM_ERROR'' msg context"

definition ErrorFactory_dependency :: "text_pieces \<Rightarrow> (string \<times> js_value) list \<Rightarrow> js_value" where
  "ErrorFactory_dependency msg context =
     new_CLIError DependencyError ''DEPENDENCY_ERROR'' msg context"

fun error_class_of :: "js_value \<Rightarrow> error_class option" where
  "error_class_of (ErrorObj cls _ _) = Some cls"
| "error_class_of _ = None"

section \<open>Regular expressions, as far as the version check needs them\<close>

text \<open>
  The version check is \<open>semverRegex.test(config.version)\<close> on a pattern anchored at both
  ends (\<open>^...$\<close>, no flags), built from character classes, sequence, \<open>?\<close>, \<open>*\<close> and \<open>+\<close>
  only. For such a pattern \<open>test\<close> answers whether the whole string belongs to the
  pattern's language; the matcher below decides that by derivatives. A character class is
  the list of its characters.
\<close>

datatype regex =
  Fail
  | Empty
  | Chars "char list"
  | Seq regex regex
  | Opt regex
  | Star regex
  | Plus regex
  | Alt regex regex

fun nullable :: "regex \<Rightarrow> bool" where
  "nullable Fail = False"
| "nullable Empty = True"
| "nullable (Chars cs) = False"
| "nullable (Seq r s) = (nullable r \<and> nullable s)"
| "nullable (Opt r) = True"
| "nullable (Star r) = True"
| "nullable (Plus r) = nullable r"
| "nullable (Alt r s) = (nullable r \<or> nullable s)"

fun deriv :: "char \<Rightarrow> regex \<Rightarrow> regex" where
  "deriv c Fail = Fail"
| "deriv c Empty = Fail"
| "deriv c (Chars cs) = (if c \<in> set cs then Empty else Fail)"
| "deriv c (Seq r s) =
     (if nullable r then Alt (Seq (deriv c r) s) (deriv c s) else Seq (deriv c r) s)"
| "deriv c (Opt r) = deriv c r"
| "deriv c (Star r) = Seq (deriv c r) (Star r)"
| "deriv c (Plus r) = Seq (deriv c r) (Star r)"
| "deriv c (Alt r s) = Alt (deriv c r) (deriv c s)"

fun test :: "regex \<Rightarrow> string \<Rightarrow> bool" where
  "test r [] = nullable r"
| "test r (c # cs) = test (deriv c r) cs"

text \<open>
  \<^verbatim>\<open>/^(\d+)\.(\d+)\.(\d+)(?:-([0-9A-Za-z-]+(?:\.[0-9A-Za-z-]+)*))?(?:\+([0-9A-Za-z-]+(?:\.[0-9A-Za-z-]+)*))?$/\<close>
  Groups only capture; \<open>test\<close> does not look at them.
\<close>

definition digit :: regex where
  "digit = Chars ''0123456789''"

definition dot :: regex where
  "dot = Chars ''.''"

definition identifier_char :: regex where
  "identifier_char =
     Chars ''0123456789ABCDEFGHIJKLMNOPQRSTUVWXYZabcdefghijklmnopqrstuvwxyz-''"

definition dotted_identifiers :: regex where
  "dotted_identifiers = Seq (Plus identifier_char) (Star (Seq dot (Plus identifier_char)))"

definition semverRegex :: regex where
  "semverRegex =
     Seq (Plus digit) (Seq dot (Seq (Plus digit) (Seq dot (Seq (Plus digit)
       (Seq (Opt (Seq (Chars ''-'') dotted_identifiers))
            (Opt (Seq (Chars ''+'') dotted_identifiers)))))))"

section \<open>The plugin manager (\<open>src/plugins/plugin-manager.ts\<close>)\<close>

text \<open>
  A hook is a function of the positional arguments it is called with. What the call does
  is seen by the manager as one of three things: it returns a value that is not a promise,
  it throws, or it returns a promise, which later fulfils, rejects or never settles.
  \<open>onError\<close> is a hook like the others.
\<close>

datatype settles = Fulfils js_value | Rejects js_value | NeverSettles

datatype hook_result = Return js_value | Throw js_value | Promise settles

type_synonym handler = "js_value list \<Rightarrow> hook_result"

datatype hook_name = BeforeGenerate | AfterGenerate | BeforeInstall | AfterInstall | OnError

record PluginHooks =
  beforeGenerate :: "handler option"
  afterGenerate :: "handler option"
  beforeInstall :: "handler option"
  afterInstall :: "handler option"
  onError :: "handler option"

text \<open>
  \<open>name\<close> and \<open>version\<close> are declared \<open>string\<close>, but \<open>validatePluginConfig\<close> tests them at
  run time, so they are JavaScript values here. The fields \<open>templates\<close>, \<open>validators\<close>
  and \<open>themes\<close> are not read by the operations below; they live in the record's extension.
\<close>

record PluginConfig =
  plugin_name :: js_value
  plugin_version :: js_value
  plugin_description :: "string option"
  plugin_hooks :: "PluginHooks option"

fun hook_key :: "hook_name \<Rightarrow> string" where
  "hook_key BeforeGenerate = ''beforeGenerate''"
| "hook_key AfterGenerate = ''afterGenerate''"
| "hook_key BeforeInstall = ''beforeInstall''"
| "hook_key AfterInstall = ''afterInstall''"
| "hook_key OnError = ''onError''"

fun hook_of :: "hook_name \<Rightarrow> PluginHooks \<Rightarrow> handler option" where
  "hook_of BeforeGenerate hooks = beforeGenerate hooks"
| "hook_of AfterGenerate hooks = afterGenerate hooks"
| "hook_of BeforeInstall hooks = beforeInstall hooks"
| "hook_of AfterInstall hooks = afterInstall hooks"
| "hook_of OnError hooks = onError hooks"

text \<open>
  \<open>this.plugins\<close> is a \<open>Map\<close>: insertion-ordered, \<open>set\<close> on a present key replaces the value
  in place. The state of the manager is this map alone.
\<close>

type_synonym registry = "(js_value \<times> PluginConfig) list"

definition has :: "registry \<Rightarrow> js_value \<Rightarrow> bool" where
  "has plugins k = (map_of plugins k \<noteq> None)"

definition getPlugin :: "registry \<Rightarrow> string \<Rightarrow> PluginConfig option" where
  "getPlugin plugins name = map_of plugins (Str name)"

definition listPlugins :: "registry \<Rightarrow> PluginConfig list" where
  "listPlugins plugins = map snd plugins"

datatype plugin_event =
  PluginLog text_pieces
  | ConsoleWarn text_pieces js_value
  | ConsoleError text_pieces js_value
  | HookCalled js_value hook_name "js_value list"
  | OnErrorCalled js_value js_value string

subsection \<open>\<open>validatePluginConfig\<close> and \<open>install\<close>\<close>

text \<open>Only a string reaches the pattern: the test before it throws on anything else.\<close>

definition regex_test :: "regex \<Rightarrow> js_value \<Rightarrow> bool" where
  "regex_test r v = (case v of Str s \<Rightarrow> test r s | _ \<Rightarrow> False)"

definition validatePluginConfig :: "PluginConfig \<Rightarrow> unit outcome" where
  "validatePluginConfig config =
     (if \<not> truthy (plugin_name config) \<or> \<not> is_string (plugin_name config)
      then Throws (ErrorFactory_plugin [Str ''Plugin name is required and must be a string''] [])
      else if \<not> truthy (plugin_version config) \<or> \<not> is_string (plugin_version config)
      then Throws (ErrorFactory_plugin
                     [Str ''Plugin version is required and must be a string''] [])
      else if \<not> regex_test semverRegex (plugin_version config)
      then Throws (ErrorFactory_plugin
                     ([Str ''Plugin version ''] @ quoted (plugin_version config)
                      @ [Str '' is not a valid semantic version'']) [])
      else Returns ())"

definition install_context :: "PluginConfig \<Rightarrow> (string \<times> js_value) list" where
  "install_context config =
     [(''operation'', Str ''install''),
      (''additionalInfo'', Obj [(''pluginName'', plugin_name config)])]"

text \<open>The check mark that opens the success notice, in UTF-8.\<close>

definition check_mark :: string where
  "check_mark = [CHR 0xE2, CHR 0x9C, CHR 0x85]"

text \<open>The body of the \<open>try\<close> block: outcome, map afterwards, console output.\<close>

definition install_body ::
  "PluginConfig \<Rightarrow> registry \<Rightarrow> unit outcome \<times> registry \<times> plugin_event list" where
  "install_body config plugins =
     (if has plugins (plugin_name config)
      then (Throws (ErrorFactory_plugin
                      ([Str ''Plugin ''] @ quoted (plugin_name config)
                       @ [Str '' is already installed''])
                      (install_context config)),
            plugins, [])
      else (case validatePluginConfig config of
              Returns _ \<Rightarrow>
                (Returns (), AList.update (plugin_name config) config plugins,
                 [PluginLog ([Str (check_mark @ '' Plugin '')] @ quoted (plugin_name config)
                             @ [Str '' v'', plugin_version config,
                                Str '' installed successfully''])])
            | Throws e \<Rightarrow> (Throws e, plugins, [])
            | Pending \<Rightarrow> (Pending, plugins, [])))"

definition install ::
  "PluginConfig \<Rightarrow> registry \<Rightarrow> unit outcome \<times> registry \<times> plugin_event list" where
  "install config plugins =
     (case install_body config plugins of
        (Throws error, plugins', evs) \<Rightarrow>
          (if instanceof_Error error
           then (Throws (ErrorFactory_plugin
                           ([Str ''Failed to install plugin ''] @ quoted (plugin_name config)
                            @ [Str '': ''] @ message error)
                           (install_context config)),
                 plugins', evs)
           else (Throws error, plugins', evs))
      | r \<Rightarrow> r)"

subsection \<open>\<open>executeHook\<close>\<close>

text \<open>
  The loop over the plugins runs synchronously: it calls each handler and collects the
  promises to wait for. A promise in that list is either one pushed as it is (the result
  of \<open>onError\<close> after a synchronous throw) or a hook's promise with the rejection
  handler attached (\<open>result.catch(async (err) => ...)\<close>).
\<close>

datatype waiting = Pushed settles | Caught PluginConfig settles

definition hook_warning :: "PluginConfig \<Rightarrow> hook_name \<Rightarrow> text_pieces" where
  "hook_warning plugin hookName =
     [Str ''Warning: Plugin ''] @ quoted (plugin_name plugin)
     @ [Str '' hook ''] @ quoted (Str (hook_key hookName)) @ [Str '' failed:'']"

definition onError_warning :: "PluginConfig \<Rightarrow> text_pieces" where
  "onError_warning plugin =
     [Str ''Plugin ''] @ quoted (plugin_name plugin) @ [Str '' onError hook also failed:'']"

definition error_context :: "hook_name \<Rightarrow> string" where
  "error_context hookName = ''hook:'' @ hook_key hookName"

definition onError_of :: "PluginConfig \<Rightarrow> handler option" where
  "onError_of plugin = (case plugin_hooks plugin of None \<Rightarrow> None | Some hooks \<Rightarrow> onError hooks)"

definition handler_of :: "hook_name \<Rightarrow> PluginConfig \<Rightarrow> handler option" where
  "handler_of hookName plugin =
     (case plugin_hooks plugin of None \<Rightarrow> None | Some hooks \<Rightarrow> hook_of hookName hooks)"

text \<open>The \<open>catch\<close> branch of the loop body: a handler threw \<open>error\<close> synchronously.\<close>

definition on_sync_throw ::
  "hook_name \<Rightarrow> PluginConfig \<Rightarrow> js_value \<Rightarrow> plugin_event list \<times> waiting list" where
  "on_sync_throw hookName plugin error =
     (case onError_of plugin of
        None \<Rightarrow> ([ConsoleWarn (hook_warning plugin hookName) error], [])
      | Some h \<Rightarrow>
          (case h [error, Str (error_context hookName)] of
             Return _ \<Rightarrow>
               ([ConsoleWarn (hook_warning plugin hookName) error,
                 OnErrorCalled (plugin_name plugin) error (error_context hookName)], [])
           | Promise errorResult \<Rightarrow>
               ([ConsoleWarn (hook_warning plugin hookName) error,
                 OnErrorCalled (plugin_name plugin) error (error_context hookName)],
                [Pushed errorResult])
           | Throw onErrorError \<Rightarrow>
               ([ConsoleWarn (hook_warning plugin hookName) error,
                 OnErrorCalled (plugin_name plugin) error (error_context hookName),
                 ConsoleError (onError_warning plugin) onErrorError], [])))"

text \<open>One iteration of the loop.\<close>

definition call_plugin ::
  "hook_name \<Rightarrow> js_value list \<Rightarrow> PluginConfig \<Rightarrow> plugin_event list \<times> waiting list" where
  "call_plugin hookName args plugin =
     (case handler_of hookName plugin of
        None \<Rightarrow> ([], [])
      | Some hook \<Rightarrow>
          (case hook args of
             Return _ \<Rightarrow> ([HookCalled (plugin_name plugin) hookName args], [])
           | Promise result \<Rightarrow>
               ([HookCalled (plugin_name plugin) hookName args], [Caught plugin result])
           | Throw error \<Rightarrow>
               (case on_sync_throw hookName plugin error of
                  (evs, ps) \<Rightarrow> (HookCalled (plugin_name plugin) hookName args # evs, ps))))"

fun call_plugins ::
  "hook_name \<Rightarrow> js_value list \<Rightarrow> PluginConfig list \<Rightarrow> plugin_event list \<times> waiting list" where
  "call_plugins hookName args [] = ([], [])"
| "call_plugins hookName args (plugin # rest) =
     (case call_plugin hookName args plugin of
        (evs, ps) \<Rightarrow>
          (case call_plugins hookName args rest of
             (evs', ps') \<Rightarrow> (evs @ evs', ps @ ps')))"

text \<open>
  What a waiting promise does before \<open>Promise.allSettled\<close> sees it settle. The handler
  attached by \<open>catch\<close> is an \<open>async\<close> function: it logs the warning, and with an
  \<open>onError\<close> hook it does \<open>return plugin.hooks.onError(...)\<close> inside a \<open>try\<close>. A
  synchronous throw of \<open>onError\<close> is caught there and logged; a promise it returns is
  returned as it is, so the waiting promise settles as that promise does.
\<close>

definition settle :: "hook_name \<Rightarrow> waiting \<Rightarrow> plugin_event list \<times> settles" where
  "settle hookName w =
     (case w of
        Pushed s \<Rightarrow> ([], s)
      | Caught plugin (Fulfils v) \<Rightarrow> ([], Fulfils v)
      | Caught plugin NeverSettles \<Rightarrow> ([], NeverSettles)
      | Caught plugin (Rejects err) \<Rightarrow>
          (case onError_of plugin of
             None \<Rightarrow> ([ConsoleWarn (hook_warning plugin hookName) err], Fulfils Undefined)
           | Some h \<Rightarrow>
               (case h [err, Str (error_context hookName)] of
                  Return v \<Rightarrow>
                    ([ConsoleWarn (hook_warning plugin hookName) err,
                      OnErrorCalled (plugin_name plugin) err (error_context hookName)],
                     Fulfils v)
                | Promise s \<Rightarrow>
                    ([ConsoleWarn (hook_warning plugin hookName) err,
                      OnErrorCalled (plugin_name plugin) err (error_context hookName)],
                     s)
                | Throw onErr \<Rightarrow>
                    ([ConsoleWarn (hook_warning plugin hookName) err,
                      OnErrorCalled (plugin_name plugin) err (error_context hookName),
                      ConsoleError (onError_warning plugin) onErr],
                     Fulfils Undefined))))"

text \<open>
  \<open>executeHook\<close>: the loop, then \<open>await Promise.allSettled(promises)\<close> when the list is
  not empty. \<open>allSettled\<close> fulfils once every promise has settled, whichever way; it
  stays pending when one never does. The events of the waiting promises are listed in the
  order of the promises; the interleaving the scheduler picks is not modelled.
\<close>

definition executeHook ::
  "hook_name \<Rightarrow> js_value list \<Rightarrow> registry \<Rightarrow> unit outcome \<times> plugin_event list" where
  "executeHook hookName args plugins =
     (case call_plugins hookName args (map snd plugins) of
        (evs, promises) \<Rightarrow>
          (let settled = map (settle hookName) promises in
           (if NeverSettles \<in> set (map snd settled) then Pending else Returns (),
            evs @ concat (map fst settled))))"

section \<open>The project generator (\<open>src/core/project-generator.ts\<close>, \<open>src/utils/fs.ts\<close>)\<close>

text \<open>
  A template as \<open>TemplateConfig\<close> declares it. The dependency maps keep the field names
  of the declaration, \<open>devDepencies\<close> included. A file's content is a string or a function
  of the answers. \<open>postInstall\<close> returns a promise; what \<open>await\<close> sees of it is an outcome,
  which may depend on everything done so far.
\<close>

datatype content = Literal string | Producer "answers \<Rightarrow> string"

record Files =
  file_path :: string
  file_content :: content
  file_condition :: "(answers \<Rightarrow> bool) option"

record Dependencies =
  dependencies :: "(string \<times> string) list option"
  devDepencies :: "(string \<times> string) list option"
  peerDependencies :: "(string \<times> string) list option"

text \<open>
  What the generator does to the outside, in order: calls of the file system
  (\<open>mkdir\<close> with \<open>recursive\<close>, \<open>writeFile\<close> in UTF-8), of the process runner, of the
  spinner and the console, and of the template's \<open>postInstall\<close>.
\<close>

datatype gen_event =
  Mkdir string
  | WriteFile string string
  | Exec string string
  | SpinnerStart string
  | SpinnerSucceed string
  | SpinnerFail string
  | Log text_pieces
  | PostInstall string answers

type_synonym history = "gen_event list"

record TemplateConfig =
  template_name :: string
  template_description :: string
  template_files :: "Files list"
  template_dependencies :: "Dependencies option"
  template_scripts :: "(string \<times> string) list option"
  template_postInstall :: "(history \<Rightarrow> string \<Rightarrow> answers \<Rightarrow> unit outcome) option"

record GeneratorConfig =
  config_projectName :: string
  config_template :: string
  config_answers :: answers
  config_outputPath :: string

text \<open>
  The Node.js runtime the generator runs on is a parameter: the path functions,
  \<open>JSON.stringify\<close>, and for each external call its outcome given the history of the run.
\<close>

record node =
  path_join :: "string \<Rightarrow> string \<Rightarrow> string"
  path_dirname :: "string \<Rightarrow> string"
  JSON_stringify :: "js_value \<Rightarrow> nat \<Rightarrow> string"
  mkdir :: "history \<Rightarrow> string \<Rightarrow> unit outcome"
  fsWriteFile :: "history \<Rightarrow> string \<Rightarrow> string \<Rightarrow> unit outcome"
  exec :: "history \<Rightarrow> string \<Rightarrow> string \<Rightarrow> unit outcome"

text \<open>
  An \<open>async\<close> function body is a function from the history so far to an outcome and the
  history extended. Statements in sequence are \<open>bind_io\<close>; \<open>try ... catch\<close> is \<open>catch_io\<close>,
  which sees thrown values only.
\<close>

type_synonym 'a action = "history \<Rightarrow> 'a outcome \<times> history"

definition return_io :: "'a \<Rightarrow> 'a action" where
  "return_io x h = (Returns x, h)"

definition throw_io :: "js_value \<Rightarrow> 'a action" where
  "throw_io e h = (Throws e, h)"

definition bind_io :: "'a action \<Rightarrow> ('a \<Rightarrow> 'b action) \<Rightarrow> 'b action" where
  "bind_io m f h =
     (case m h of
        (Returns x, h') \<Rightarrow> f x h'
      | (Throws e, h') \<Rightarrow> (Throws e, h')
      | (Pending, h') \<Rightarrow> (Pending, h'))"

definition catch_io :: "'a action \<Rightarrow> (js_value \<Rightarrow> 'a action) \<Rightarrow> 'a action" where
  "catch_io m handler h =
     (case m h of
        (Throws e, h') \<Rightarrow> handler e h'
      | (Returns x, h') \<Rightarrow> (Returns x, h')
      | (Pending, h') \<Rightarrow> (Pending, h'))"

definition emit :: "gen_event \<Rightarrow> unit action" where
  "emit ev h = (Returns (), h @ [ev])"

definition call :: "gen_event \<Rightarrow> (history \<Rightarrow> unit outcome) \<Rightarrow> unit action" where
  "call ev outcome_of h = (outcome_of h, h @ [ev])"

subsection \<open>\<open>ensureDir\<close>, \<open>writeFile\<close>, \<open>writeJson\<close>\<close>

fun own_property :: "js_value \<Rightarrow> string \<Rightarrow> js_value option" where
  "own_property (ErrorObj _ _ props) k = map_of props k"
| "own_property (Obj props) k = map_of props k"
| "own_property _ k = None"

text \<open>
  \<open>ensureDir\<close> rethrows only under
  \<^verbatim>\<open>error instanceof Error && 'code' in error && error.code !== 'EEXIST'\<close>.
\<close>

definition ensureDir :: "node \<Rightarrow> string \<Rightarrow> unit action" where
  "ensureDir nd dirPath =
     catch_io (call (Mkdir dirPath) (\<lambda>h. mkdir nd h dirPath))
       (\<lambda>error.
          if instanceof_Error error
             \<and> (case own_property error ''code'' of
                  None \<Rightarrow> False
                | Some c \<Rightarrow> c \<noteq> Str ''EEXIST'')
          then throw_io error else return_io ())"

definition writeFile :: "node \<Rightarrow> string \<Rightarrow> string \<Rightarrow> unit action" where
  "writeFile nd filePath contents =
     bind_io (ensureDir nd (path_dirname nd filePath))
       (\<lambda>_. call (WriteFile filePath contents) (\<lambda>h. fsWriteFile nd h filePath contents))"

definition writeJson :: "node \<Rightarrow> string \<Rightarrow> js_value \<Rightarrow> nat \<Rightarrow> unit action" where
  "writeJson nd filePath obj spaces = writeFile nd filePath (JSON_stringify nd obj spaces)"

subsection \<open>\<open>generateFiles\<close>\<close>

definition skipped :: "Files \<Rightarrow> answers \<Rightarrow> bool" where
  "skipped file a = (case file_condition file of None \<Rightarrow> False | Some c \<Rightarrow> \<not> c a)"

definition content_of :: "Files \<Rightarrow> answers \<Rightarrow> string" where
  "content_of file a = (case file_content file of Literal s \<Rightarrow> s | Producer f \<Rightarrow> f a)"

primrec write_files :: "Files list \<Rightarrow> node \<Rightarrow> answers \<Rightarrow> string \<Rightarrow> unit action" where
  "write_files [] nd a projectPath = return_io ()"
| "write_files (file # files) nd a projectPath =
     (if skipped file a then write_files files nd a projectPath
      else bind_io (ensureDir nd (path_dirname nd (path_join nd projectPath (file_path file))))
             (\<lambda>_. bind_io (writeFile nd (path_join nd projectPath (file_path file))
                              (content_of file a))
                     (\<lambda>_. write_files files nd a projectPath)))"

definition generateFiles ::
  "node \<Rightarrow> TemplateConfig \<Rightarrow> GeneratorConfig \<Rightarrow> string \<Rightarrow> unit action" where
  "generateFiles nd template config projectPath =
     bind_io (emit (SpinnerStart ''Generating project files...''))
       (\<lambda>_. catch_io
               (bind_io (write_files (template_files template) nd (config_answers config)
                           projectPath)
                  (\<lambda>_. emit (SpinnerSucceed ''Project files generated'')))
               (\<lambda>error.
                  bind_io (emit (SpinnerFail ''Failed to generate project files''))
                    (\<lambda>_. if instanceof_Error error
                          then throw_io
                                 (ErrorFactory_filesystem
                                    ([Str ''Failed to generate files: ''] @ message error)
                                    [(''operation'', Str ''generateFiles''),
                                     (''projectName'', Str (config_projectName config)),
                                     (''template'', Str (config_template config))])
                          else throw_io error)))"

subsection \<open>\<open>generatePackageJson\<close>\<close>

definition record_obj :: "(string \<times> string) list \<Rightarrow> js_value" where
  "record_obj m = Obj (map (\<lambda>(k, v). (k, Str v)) m)"

definition or_empty :: "(string \<times> string) list option \<Rightarrow> (string \<times> string) list" where
  "or_empty m = (case m of None \<Rightarrow> [] | Some x \<Rightarrow> x)"

text \<open>\<open>template.dependencies?.f || {}\<close> for a field \<open>f\<close> of \<open>Dependencies\<close>.\<close>

definition dependency_map ::
  "(Dependencies \<Rightarrow> (string \<times> string) list option) \<Rightarrow> TemplateConfig
   \<Rightarrow> (string \<times> string) list" where
  "dependency_map f template =
     (case template_dependencies template of None \<Rightarrow> [] | Some d \<Rightarrow> or_empty (f d))"

definition packageJson :: "TemplateConfig \<Rightarrow> GeneratorConfig \<Rightarrow> js_value" where
  "packageJson template config =
     Obj [(''name'', Str (config_projectName config)),
          (''version'', Str ''0.1.0''),
          (''private'', Bool True),
          (''scripts'', record_obj (or_empty (template_scripts template))),
          (''dependencies'', record_obj (dependency_map dependencies template)),
          (''devDependencies'', record_obj (dependency_map devDepencies template)),
          (''peerDependencies'', record_obj (dependency_map peerDependencies template))]"

definition generatePackageJson ::
  "node \<Rightarrow> TemplateConfig \<Rightarrow> GeneratorConfig \<Rightarrow> string \<Rightarrow> unit action" where
  "generatePackageJson nd template config projectPath =
     catch_io
       (writeJson nd (path_join nd projectPath ''package.json'') (packageJson template config) 2)
       (\<lambda>error.
          if instanceof_Error error
          then throw_io
                 (ErrorFactory_filesystem
                    ([Str ''Failed to generate package.json: ''] @ message error)
                    [(''operation'', Str ''generatePackageJson''),
                     (''projectName'', Str (config_projectName config)),
                     (''filePath'', Str (path_join nd projectPath ''package.json''))])
          else throw_io error)"

subsection \<open>\<open>installDependencies\<close>\<close>

definition installDependencies :: "node \<Rightarrow> string \<Rightarrow> unit action" where
  "installDependencies nd projectPath =
     bind_io (emit (SpinnerStart ''Installing dependencies...''))
       (\<lambda>_. catch_io
               (bind_io (call (Exec ''npm install'' projectPath)
                           (\<lambda>h. exec nd h ''npm install'' projectPath))
                  (\<lambda>_. emit (SpinnerSucceed ''Dependencies installed successfully'')))
               (\<lambda>error.
                  bind_io (emit (SpinnerFail ''Failed to install dependencies''))
                    (\<lambda>_. if instanceof_Error error
                          then throw_io
                                 (ErrorFactory_dependency
                                    ([Str ''Failed to install dependencies: '']
                                     @ message error)
                                    [(''operation'', Str ''installDependencies''),
                                     (''filePath'', Str projectPath)])
                          else emit (Log [Str ''You can install them manually later with: npm install'']))))"

subsection \<open>\<open>generate\<close>\<close>

text \<open>
  The \<open>try\<close> block of \<open>generate\<close> is five statements in sequence. They are grouped here
  as the three that write the project, then the install step, then \<open>postInstall\<close>, so
  that a property can speak of the history at which a step starts.
\<close>

definition write_project ::
  "node \<Rightarrow> TemplateConfig \<Rightarrow> GeneratorConfig \<Rightarrow> string \<Rightarrow> unit action" where
  "write_project nd template config projectPath =
     bind_io (ensureDir nd projectPath)
       (\<lambda>_. bind_io (generateFiles nd template config projectPath)
               (\<lambda>_. generatePackageJson nd template config projectPath))"

definition wants_install :: "TemplateConfig \<Rightarrow> GeneratorConfig \<Rightarrow> bool" where
  "wants_install template config =
     (template_dependencies template \<noteq> None
      \<and> get_answer (config_answers config) ''installDeps'' \<noteq> Bool False)"

definition install_step ::
  "node \<Rightarrow> TemplateConfig \<Rightarrow> GeneratorConfig \<Rightarrow> string \<Rightarrow> unit action" where
  "install_step nd template config projectPath =
     (if wants_install template config then installDependencies nd projectPath
      else return_io ())"

definition postInstall_step ::
  "TemplateConfig \<Rightarrow> GeneratorConfig \<Rightarrow> string \<Rightarrow> unit action" where
  "postInstall_step template config projectPath =
     (case template_postInstall template of
        None \<Rightarrow> return_io ()
      | Some f \<Rightarrow>
          call (PostInstall projectPath (config_answers config))
            (\<lambda>h. f h projectPath (config_answers config)))"

definition generate_context :: "GeneratorConfig \<Rightarrow> (string \<times> js_value) list" where
  "generate_context config =
     [(''operation'', Str ''generate''),
      (''projectName'', Str (config_projectName config)),
      (''template'', Str (config_template config))]"

definition projectPath_of :: "node \<Rightarrow> GeneratorConfig \<Rightarrow> string" where
  "projectPath_of nd config = path_join nd (config_outputPath config) (config_projectName config)"

definition until_postInstall ::
  "node \<Rightarrow> TemplateConfig \<Rightarrow> GeneratorConfig \<Rightarrow> string \<Rightarrow> unit action" where
  "until_postInstall nd template config projectPath =
     bind_io (write_project nd template config projectPath)
       (\<lambda>_. install_step nd template config projectPath)"

definition generate :: "node \<Rightarrow> TemplateConfig \<Rightarrow> GeneratorConfig \<Rightarrow> unit action" where
  "generate nd template config =
     catch_io
       (bind_io (until_postInstall nd template config (projectPath_of nd config))
          (\<lambda>_. postInstall_step template config (projectPath_of nd config)))
       (\<lambda>error.
          if instanceof_Error error
          then throw_io
                 (ErrorFactory_filesystem
                    ([Str ''Failed to generate project: ''] @ message error)
                    (generate_context config))
          else throw_io error)"

section \<open>The specification's wording, for comparison with the source\<close>

text \<open>
  The confirm rule in the specification's words, "true iff the
  trimmed, lowercased input is one of \<open>{y, yes, true, 1}\<close>".
\<close>

definition confirm_as_specified :: "string \<Rightarrow> bool" where
  "confirm_as_specified line = (toLowerCase (trim line) \<in> {''y'', ''yes'', ''true'', ''1''})"


text \<open>
  The manifest document in the specification's words, from the
  project name, the template's scripts and its three dependency maps, each map defaulting
  to the empty one.
\<close>

definition manifest_as_specified ::
  "string \<Rightarrow> (string \<times> string) list option \<Rightarrow> (string \<times> string) list option
   \<Rightarrow> (string \<times> string) list option \<Rightarrow> (string \<times> string) list option \<Rightarrow> js_value" where
  "manifest_as_specified projectName scripts runtime dev peer =
     Obj [(''name'', Str projectName),
          (''version'', Str ''0.1.0''),
          (''private'', Bool True),
          (''scripts'', Obj (map (\<lambda>(k, v). (k, Str v)) (case scripts of None \<Rightarrow> [] | Some m \<Rightarrow> m))),
          (''dependencies'',
           Obj (map (\<lambda>(k, v). (k, Str v)) (case runtime of None \<Rightarrow> [] | Some m \<Rightarrow> m))),
          (''devDependencies'',
           Obj (map (\<lambda>(k, v). (k, Str v)) (case dev of None \<Rightarrow> [] | Some m \<Rightarrow> m))),
          (''peerDependencies'',
           Obj (map (\<lambda>(k, v). (k, Str v)) (case peer of None \<Rightarrow> [] | Some m \<Rightarrow> m)))]"
















section \<open>Concrete configurations\<close>

text \<open>Small prompts, plugins and templates on which the properties below are run.\<close>

text \<open>Two input prompts, the first pre-seeded from the command line.\<close>

definition demo_name_prompt :: PromptConfig where
  "demo_name_prompt =
     \<lparr>prompt_name = ''projectName'', prompt_type = input, prompt_message = ''Project name'',
      prompt_default = Undefined, prompt_choices = None, prompt_validate = None,
      prompt_when = None, prompt_transform = None\<rparr>"

definition demo_author_prompt :: PromptConfig where
  "demo_author_prompt =
     \<lparr>prompt_name = ''author'', prompt_type = input, prompt_message = ''Author'',
      prompt_default = Undefined, prompt_choices = None, prompt_validate = None,
      prompt_when = None, prompt_transform = None\<rparr>"


text \<open>
  A yes/no prompt, and a follow-up prompt that is only visible after a \<open>yes\<close>. The
  follow-up has a default.
\<close>

definition demo_ts_prompt :: PromptConfig where
  "demo_ts_prompt =
     \<lparr>prompt_name = ''useTs'', prompt_type = confirm, prompt_message = ''Use TypeScript?'',
      prompt_default = Bool True, prompt_choices = None, prompt_validate = None,
      prompt_when = None, prompt_transform = None\<rparr>"



text \<open>
  Two prompts of one name. The first stores \<open>undefined\<close>: its \<open>transform\<close> returns
  nothing.
\<close>

definition demo_void_prompt :: PromptConfig where
  "demo_void_prompt =
     \<lparr>prompt_name = ''scope'', prompt_type = input, prompt_message = ''Scope'',
      prompt_default = Undefined, prompt_choices = None, prompt_validate = None,
      prompt_when = None, prompt_transform = Some (\<lambda>v. Undefined)\<rparr>"

definition demo_again_prompt :: PromptConfig where
  "demo_again_prompt =
     \<lparr>prompt_name = ''scope'', prompt_type = input, prompt_message = ''Scope again'',
      prompt_default = Undefined, prompt_choices = None, prompt_validate = None,
      prompt_when = None, prompt_transform = None\<rparr>"





text \<open>
  Three plugins for one event: the first returns, the second throws, the third returns a
  promise that rejects. The second has an \<open>onError\<close> hook that itself returns a rejected
  promise; the third has one that throws.
\<close>

definition demo_failure :: js_value where
  "demo_failure = ErrorObj Error [Str ''Hook error''] []"

definition demo_second_failure :: js_value where
  "demo_second_failure = ErrorObj Error [Str ''onError failed too''] []"

definition no_hooks :: PluginHooks where
  "no_hooks = \<lparr>beforeGenerate = None, afterGenerate = None, beforeInstall = None,
              afterInstall = None, onError = None\<rparr>"

definition demo_plugin :: "string \<Rightarrow> string \<Rightarrow> PluginHooks \<Rightarrow> PluginConfig" where
  "demo_plugin n v hooks =
     \<lparr>plugin_name = Str n, plugin_version = Str v, plugin_description = None,
      plugin_hooks = Some hooks\<rparr>"

definition plugin_one :: PluginConfig where
  "plugin_one = demo_plugin ''one'' ''1.0.0'' (no_hooks\<lparr>beforeGenerate := Some (\<lambda>args. Return Undefined)\<rparr>)"

definition plugin_two :: PluginConfig where
  "plugin_two =
     demo_plugin ''two'' ''1.0.0-beta.1''
       (no_hooks\<lparr>beforeGenerate := Some (\<lambda>args. Throw demo_failure),
                 onError := Some (\<lambda>args. Promise (Rejects demo_second_failure))\<rparr>)"

definition plugin_three :: PluginConfig where
  "plugin_three =
     demo_plugin ''three'' ''1.0.0+build.5''
       (no_hooks\<lparr>beforeGenerate := Some (\<lambda>args. Promise (Rejects demo_failure)),
                 onError := Some (\<lambda>args. Throw demo_second_failure)\<rparr>)"

definition demo_registry :: registry where
  "demo_registry =
     [(Str ''one'', plugin_one), (Str ''two'', plugin_two), (Str ''three'', plugin_three)]"

text \<open>
  A plugin whose hook returns a promise that never settles, and a plugin whose version
  has a leading zero.
\<close>

definition plugin_five :: PluginConfig where
  "plugin_five =
     demo_plugin ''five'' ''1.0.0''
       (no_hooks\<lparr>beforeGenerate := Some (\<lambda>args. Promise NeverSettles)\<rparr>)"


text \<open>
  A runtime for the generator in which the file system always succeeds and the outcome
  of the install command is chosen by the caller. Paths are joined with a slash, and
  documents are printed by a small compact printer (enough to tell documents apart).
\<close>

fun compact_json :: "js_value \<Rightarrow> string" where
  "compact_json (Str s) = s"
| "compact_json (Bool b) = (if b then ''true'' else ''false'')"
| "compact_json (Obj members) =
     ''{'' @ concat (map (\<lambda>(k, v). k @ '':'' @ compact_json v @ '','')
                       members) @ ''}''"
| "compact_json _ = ''null''"

definition demo_dirname :: "string \<Rightarrow> string" where
  "demo_dirname p = rev (drop 1 (dropWhile (\<lambda>c. c \<noteq> CHR ''/'') (rev p)))"

definition demo_node :: "unit outcome \<Rightarrow> node" where
  "demo_node install_outcome =
     \<lparr>path_join = (\<lambda>a b. a @ ''/'' @ b),
      path_dirname = demo_dirname,
      JSON_stringify = (\<lambda>v spaces. compact_json v),
      mkdir = (\<lambda>h p. Returns ()),
      fsWriteFile = (\<lambda>h p d. Returns ()),
      exec = (\<lambda>h cmd cwd. install_outcome)\<rparr>"

definition demo_template :: "(history \<Rightarrow> string \<Rightarrow> answers \<Rightarrow> unit outcome) option \<Rightarrow> TemplateConfig" where
  "demo_template post =
     \<lparr>template_name = ''react'', template_description = ''React'',
      template_files = [\<lparr>file_path = ''README.md'', file_content = Literal ''# app'',
                         file_condition = None\<rparr>],
      template_dependencies =
        Some \<lparr>dependencies = Some [(''react'', ''^18.2.0'')], devDepencies = None,
              peerDependencies = None\<rparr>,
      template_scripts = Some [(''dev'', ''vite'')],
      template_postInstall = post\<rparr>"

definition demo_config :: GeneratorConfig where
  "demo_config =
     \<lparr>config_projectName = ''app'', config_template = ''react'',
      config_answers = [(''projectName'', Str ''app''), (''template'', Str ''react'')],
      config_outputPath = ''/tmp''\<rparr>"

definition npm_failure :: js_value where
  "npm_failure = ErrorObj Error [Str ''Command failed: npm install''] [(''code'', Num 1)]"

definition post_failure :: js_value where
  "post_failure = ErrorObj Error [Str ''boom''] []"

text \<open>
  Two \<open>postInstall\<close> handlers, and what the generator has done on \<open>demo_config\<close> by the
  time the project is written.
\<close>

definition post_ok :: "history \<Rightarrow> string \<Rightarrow> answers \<Rightarrow> unit outcome" where
  "post_ok h p a = Returns ()"

definition post_fails :: "history \<Rightarrow> string \<Rightarrow> answers \<Rightarrow> unit outcome" where
  "post_fails h p a = Throws post_failure"

definition demo_written :: history where
  "demo_written =
     [Mkdir ''/tmp/app'', SpinnerStart ''Generating project files...'',
      Mkdir ''/tmp/app'', Mkdir ''/tmp/app'', WriteFile ''/tmp/app/README.md'' ''# app'',
      SpinnerSucceed ''Project files generated'', Mkdir ''/tmp/app'',
      WriteFile ''/tmp/app/package.json''
        (compact_json (manifest_as_specified ''app'' (Some [(''dev'', ''vite'')])
                         (Some [(''react'', ''^18.2.0'')]) None None))]"

definition install_trace :: history where
  "install_trace =
     [SpinnerStart ''Installing dependencies...'', Exec ''npm install'' ''/tmp/app'',
      SpinnerFail ''Failed to install dependencies'']"

definition install_hint :: gen_event where
  "install_hint = Log [Str ''You can install them manually later with: npm install'']"

section \<open>Properties of the prompt resolution engine\<close>

subsection \<open>Reading and writing the answer set\<close>

lemma get_answer_update:
  "get_answer (AList.update k v a) k' = (if k' = k then v else get_answer a k')"
  by (simp add: get_answer_def Object_prototype_def update_conv')


subsection \<open>The prompt loop, one prompt at a time\<close>

lemma prompt_loop_skip:
  "hidden p a \<or> answered a (prompt_name p) \<Longrightarrow>
   prompt_loop (p # ps) a lines = prompt_loop ps a lines"
  by auto

lemma prompt_loop_ask:
  "\<not> hidden p a \<Longrightarrow> \<not> answered a (prompt_name p) \<Longrightarrow>
   prompt_loop (p # ps) a lines =
     (case processPrompt p a lines of
        (Returns answer, ls, evs) \<Rightarrow>
          (case prompt_loop ps (AList.update (prompt_name p) (transformed p answer) a) ls of
             (out, ls', evs') \<Rightarrow> (out, ls', map (Pair (Some (prompt_name p))) evs @ evs'))
      | (Throws e, ls, evs) \<Rightarrow> (Throws e, ls, map (Pair (Some (prompt_name p))) evs)
      | (Pending, ls, evs) \<Rightarrow> (Pending, ls, map (Pair (Some (prompt_name p))) evs))"
  by simp

lemma prompt_loop_keeps:
  "answered a n \<Longrightarrow> prompt_loop ps a lines = (out, ls, evs) \<Longrightarrow>
   Some n \<notin> fst ` set evs \<and> (\<forall>r. out = Returns r \<longrightarrow> get_answer r n = get_answer a n)"
proof (induction ps arbitrary: a lines out ls evs)
  case Nil
  then show ?case by auto
next
  case (Cons p ps)
  show ?case
  proof (cases "hidden p a \<or> answered a (prompt_name p)")
    case True
    then have "prompt_loop ps a lines = (out, ls, evs)"
      using Cons.prems(2) prompt_loop_skip by metis
    then show ?thesis using Cons.IH Cons.prems(1) by blast
  next
    case False
    then have ne: "prompt_name p \<noteq> n" using Cons.prems(1) by auto
    note step = prompt_loop_ask[of p a ps lines]
    obtain o1 l1 e1 where pp: "processPrompt p a lines = (o1, l1, e1)"
      by (cases "processPrompt p a lines") auto
    show ?thesis
    proof (cases o1)
      case (Returns ans)
      let ?a' = "AList.update (prompt_name p) (transformed p ans) a"
      obtain o2 l2 e2 where rest: "prompt_loop ps ?a' l1 = (o2, l2, e2)"
        by (cases "prompt_loop ps ?a' l1") auto
      have a': "answered ?a' n" "get_answer ?a' n = get_answer a n"
        using Cons.prems(1) ne by (simp_all add: answered_def get_answer_update)
      from Cons.IH[OF a'(1) rest] have ih:
        "Some n \<notin> fst ` set e2" "\<forall>r. o2 = Returns r \<longrightarrow> get_answer r n = get_answer a n"
        using a'(2) by auto
      have "out = o2" "evs = map (Pair (Some (prompt_name p))) e1 @ e2"
        using Cons.prems(2) False pp Returns rest step by auto
      then show ?thesis using ih ne by auto
    next
      case (Throws e)
      then have "out = Throws e" "evs = map (Pair (Some (prompt_name p))) e1"
        using Cons.prems(2) False pp step by auto
      then show ?thesis using ne by auto
    next
      case Pending
      then have "out = Pending" "evs = map (Pair (Some (prompt_name p))) e1"
        using Cons.prems(2) False pp step by auto
      then show ?thesis using ne by auto
    qed
  qed
qed



lemma fillDefaults_loop_keeps:
  "answered a n \<Longrightarrow> get_answer (fillDefaults_loop ps a) n = get_answer a n"
proof (induction ps arbitrary: a)
  case Nil
  show ?case by simp
next
  case (Cons p ps)
  let ?a' = "if get_answer a (prompt_name p) = Undefined \<and> prompt_default p \<noteq> Undefined
             then AList.update (prompt_name p) (prompt_default p) a else a"
  have "get_answer ?a' n = get_answer a n"
    using Cons.prems by (auto simp: answered_def get_answer_update)
  moreover from this have "answered ?a' n" using Cons.prems by (simp add: answered_def)
  ultimately show ?case using Cons.IH[of ?a'] by simp
qed

text \<open>
  Claim C6, as amended. A prompt whose name already holds a value other than \<open>undefined\<close>
  in the accumulated answer set is skipped by the prompt loop: the loop goes on as if the
  prompt were not in the list, no event of the run (so no question to the line reader) is
  issued on behalf of that name, and the value stored under it comes out unchanged,
  whatever the later prompts are. The defaults mode keeps the value as well. The test is
  the source's own, \<open>answers[prompt.name] !== undefined\<close>.
\<close>

theorem answered_prompt_is_skipped:
  assumes "answered answers n"
  shows "(prompt_name prompt = n \<longrightarrow>
            prompt_loop (prompt # prompts) answers lines = prompt_loop prompts answers lines)
         \<and> (prompt_loop ps answers lines = (out, ls, evs) \<longrightarrow>
              Some n \<notin> fst ` set evs
              \<and> (\<forall>r. out = Returns r \<longrightarrow> get_answer r n = get_answer answers n))
         \<and> get_answer (fillDefaults config answers) n = get_answer answers n"
  using assms prompt_loop_skip[of prompt answers prompts lines]
    prompt_loop_keeps[of answers n ps lines out ls evs]
    fillDefaults_loop_keeps[of answers n "cfg_prompts config"]
  by (simp add: fillDefaults_def)

theorem answered_prompt_is_skipped_witness:
  "answered [(''projectName'', Str ''app'')] ''projectName''
   \<and> prompt_loop [demo_name_prompt, demo_author_prompt] [(''projectName'', Str ''app'')] [''ann'']
       = (Returns [(''projectName'', Str ''app''), (''author'', Str ''ann'')], [],
          [(Some ''author'', Question [Str ''Author'', Str '': ''])])
   \<and> prompt_loop [demo_name_prompt, demo_author_prompt] [(''projectName'', Str ''app'')] [''ann'']
       = prompt_loop [demo_author_prompt] [(''projectName'', Str ''app'')] [''ann'']
   \<and> Some ''projectName'' \<notin> fst ` set [(Some ''author'', Question [Str ''Author'', Str '': ''])]
   \<and> get_answer [(''projectName'', Str ''app''), (''author'', Str ''ann'')] ''projectName''
       = get_answer [(''projectName'', Str ''app'')] ''projectName''"
proof -
  let ?seed = "[(''projectName'', Str ''app'')]"
  let ?out = "[(''projectName'', Str ''app''), (''author'', Str ''ann'')]"
  let ?evs = "[(Some ''author'', Question [Str ''Author'', Str '': ''])]"
  have a: "answered ?seed ''projectName''"
    by (simp add: answered_def get_answer_def Object_prototype_def)
  have run: "prompt_loop [demo_name_prompt, demo_author_prompt] ?seed [''ann'']
       = (Returns ?out, [], ?evs)"
    by (simp add: demo_name_prompt_def demo_author_prompt_def hidden_def answered_def
        get_answer_def Object_prototype_def processPrompt_def input_query_def transformed_def)
  have nm: "prompt_name demo_name_prompt = ''projectName''"
    by (simp add: demo_name_prompt_def)
  note inst = answered_prompt_is_skipped[OF a, of demo_name_prompt "[demo_author_prompt]" "[''ann'']"
      "[demo_name_prompt, demo_author_prompt]" "Returns ?out" "[]" "?evs" "\<lparr>cfg_prompts = [], cfg_allowModeSelection = False\<rparr>"]
  from inst nm have skip: "prompt_loop [demo_name_prompt, demo_author_prompt] ?seed [''ann'']
       = prompt_loop [demo_author_prompt] ?seed [''ann'']"
    by blast
  from inst run have "Some ''projectName'' \<notin> fst ` set ?evs"
    and "get_answer ?out ''projectName'' = get_answer ?seed ''projectName''"
    by blast+
  with a run skip show ?thesis by blast
qed

text \<open>
  The claim as stated skips every prompt whose name is present. A name can be present
  with the value \<open>undefined\<close>: the \<open>transform\<close> of the first prompt returns it, and the
  loop stores it under the name. The second prompt of that name is then put to the line
  reader, and its answer replaces what was stored.
\<close>

theorem undefined_answer_counterexample:
  "prompt_loop [demo_void_prompt] [] [''a'']
     = (Returns [(''scope'', Undefined)], [],
        [(Some ''scope'', Question [Str ''Scope'', Str '': ''])])
   \<and> ''scope'' \<in> fst ` set [(''scope'', Undefined)]
   \<and> prompt_name demo_again_prompt = ''scope''
   \<and> prompt_loop [demo_again_prompt] [(''scope'', Undefined)] [''b'']
       = (Returns [(''scope'', Str ''b'')], [],
          [(Some ''scope'', Question [Str ''Scope again'', Str '': ''])])
   \<and> prompt_loop [demo_void_prompt, demo_again_prompt] [] [''a'', ''b'']
       = (Returns [(''scope'', Str ''b'')], [],
          [(Some ''scope'', Question [Str ''Scope'', Str '': '']),
           (Some ''scope'', Question [Str ''Scope again'', Str '': ''])])"
  by (simp add: demo_void_prompt_def demo_again_prompt_def hidden_def answered_def
      get_answer_def Object_prototype_def processPrompt_def input_query_def transformed_def)

subsection \<open>Visibility predicates\<close>




subsection \<open>The defaults mode\<close>









subsection \<open>Confirm prompts\<close>

text \<open>
  Claim C5, as amended. A confirm prompt reads one line and answers true exactly when the
  lower-cased line, as typed and without trimming, is one of \<open>y\<close>, \<open>yes\<close>, \<open>true\<close>, \<open>1\<close>.
  The prompt's default plays no part in the answer (it only picks the hint in the
  question), and the empty line answers false.
\<close>

theorem confirm_answer_untrimmed:
  "handleConfirmPrompt prompt answers (l # ls) =
     (Returns (Bool (toLowerCase l \<in> {''y'', ''yes'', ''true'', ''1''})), ls,
      [Question (confirm_query prompt), ConsoleLogAnswers answers])
   \<and> fst (handleConfirmPrompt prompt answers ([] # ls)) = Returns (Bool False)"
  by (simp add: handleConfirmPrompt_def question_def toLowerCase_def)

text \<open>
  The claim as stated trims the line first. On the line \<open>y\<close> followed by a space the
  specified rule says true and the handler says false.
\<close>

theorem confirm_trailing_space_counterexample:
  "confirm_as_specified ''y ''
   \<and> fst (handleConfirmPrompt demo_ts_prompt [] [''y '']) = Returns (Bool False)"
  by (simp add: confirm_as_specified_def handleConfirmPrompt_def question_def toLowerCase_def
      lower_char_def trim_def is_whitespace_def)

subsection \<open>Multiselect prompts\<close>




section \<open>Properties of the plugin manager\<close>

subsection \<open>The version pattern and the version grammar\<close>























subsection \<open>The strict grammar and the pattern's grammar\<close>














subsection \<open>Installing a plugin\<close>

lemma validate_outcome:
  "validatePluginConfig config = Returns ()
     \<or> (\<exists>m. validatePluginConfig config = Throws (ErrorFactory_plugin m []))"
  by (auto simp: validatePluginConfig_def)


lemma install_cases:
  "(has plugins (plugin_name config) \<or> validatePluginConfig config \<noteq> Returns ()) \<and>
     (\<exists>m. install config plugins =
            (Throws (ErrorFactory_plugin m (install_context config)), plugins, []))
   \<or> \<not> has plugins (plugin_name config) \<and> validatePluginConfig config = Returns () \<and>
     (\<exists>l. install config plugins =
            (Returns (), AList.update (plugin_name config) config plugins, [PluginLog l]))"
proof (cases "has plugins (plugin_name config)")
  case True
  then show ?thesis
    by (simp add: install_def install_body_def ErrorFactory_plugin_def new_CLIError_def)
next
  case False
  from validate_outcome[of config] show ?thesis
  proof
    assume "validatePluginConfig config = Returns ()"
    then show ?thesis using False by (simp add: install_def install_body_def)
  next
    assume "\<exists>m. validatePluginConfig config = Throws (ErrorFactory_plugin m [])"
    then show ?thesis using False
      by (auto simp: install_def install_body_def ErrorFactory_plugin_def new_CLIError_def)
  qed
qed





text \<open>
  Claim C10. A failed \<open>install\<close> leaves the registry as it was: the map is unchanged, so
  \<open>getPlugin\<close> answers every name as before and \<open>listPlugins\<close> lists the same plugins;
  nothing is printed either.
\<close>

theorem failed_install_changes_nothing:
  assumes "fst (install config plugins) = Throws e"
  shows "fst (snd (install config plugins)) = plugins
         \<and> getPlugin (fst (snd (install config plugins))) n = getPlugin plugins n
         \<and> listPlugins (fst (snd (install config plugins))) = listPlugins plugins
         \<and> set (listPlugins (fst (snd (install config plugins)))) = set (listPlugins plugins)
         \<and> snd (snd (install config plugins)) = []"
  using assms install_cases[of plugins config] by auto

theorem failed_install_changes_nothing_witness:
  "fst (install plugin_one demo_registry)
     = Throws (ErrorFactory_plugin
                 ([Str ''Failed to install plugin ''] @ quoted (Str ''one'') @ [Str '': '']
                  @ [Str ''Plugin ''] @ quoted (Str ''one'') @ [Str '' is already installed''])
                 (install_context plugin_one))
   \<and> fst (snd (install plugin_one demo_registry)) = demo_registry
   \<and> getPlugin (fst (snd (install plugin_one demo_registry))) ''one'' = Some plugin_one
   \<and> listPlugins (fst (snd (install plugin_one demo_registry)))
       = [plugin_one, plugin_two, plugin_three]"
proof -
  have t: "fst (install plugin_one demo_registry)
     = Throws (ErrorFactory_plugin
                 ([Str ''Failed to install plugin ''] @ quoted (Str ''one'') @ [Str '': '']
                  @ [Str ''Plugin ''] @ quoted (Str ''one'') @ [Str '' is already installed''])
                 (install_context plugin_one))"
    by (simp add: install_def install_body_def has_def demo_registry_def plugin_one_def
        demo_plugin_def ErrorFactory_plugin_def new_CLIError_def)
  have g: "getPlugin demo_registry ''one'' = Some plugin_one"
    by (simp add: getPlugin_def demo_registry_def)
  have l: "listPlugins demo_registry = [plugin_one, plugin_two, plugin_three]"
    by (simp add: listPlugins_def demo_registry_def)
  from failed_install_changes_nothing[OF t, of "''one''"] t g l show ?thesis by simp
qed

subsection \<open>Running a hook\<close>

lemma call_plugins_concat:
  "call_plugins hookName args ps =
     (concat (map (\<lambda>p. fst (call_plugin hookName args p)) ps),
      concat (map (\<lambda>p. snd (call_plugin hookName args p)) ps))"
  by (induction ps) (auto split: prod.splits)

lemma call_plugin_called:
  assumes "handler_of hookName plugin = Some hook"
  shows "HookCalled (plugin_name plugin) hookName args \<in> set (fst (call_plugin hookName args plugin))"
  using assms by (auto simp: call_plugin_def split: hook_result.splits prod.splits)

lemma call_plugin_throw:
  assumes "handler_of hookName plugin = Some hook" and "hook args = Throw err"
  shows "ConsoleWarn (hook_warning plugin hookName) err
           \<in> set (fst (call_plugin hookName args plugin))"
    and "onError_of plugin = Some h \<Longrightarrow>
         OnErrorCalled (plugin_name plugin) err (error_context hookName)
           \<in> set (fst (call_plugin hookName args plugin))"
    and "onError_of plugin = Some h \<Longrightarrow> h [err, Str (error_context hookName)] = Throw e2 \<Longrightarrow>
         ConsoleError (onError_warning plugin) e2 \<in> set (fst (call_plugin hookName args plugin))"
  using assms
  by (auto simp: call_plugin_def on_sync_throw_def split: hook_result.splits option.splits)

lemma call_plugin_reject:
  assumes "handler_of hookName plugin = Some hook" and "hook args = Promise (Rejects err)"
  shows "Caught plugin (Rejects err) \<in> set (snd (call_plugin hookName args plugin))"
  using assms by (simp add: call_plugin_def)

lemma settle_reject:
  shows "ConsoleWarn (hook_warning plugin hookName) err
           \<in> set (fst (settle hookName (Caught plugin (Rejects err))))"
    and "onError_of plugin = Some h \<Longrightarrow>
         OnErrorCalled (plugin_name plugin) err (error_context hookName)
           \<in> set (fst (settle hookName (Caught plugin (Rejects err))))"
    and "onError_of plugin = Some h \<Longrightarrow> h [err, Str (error_context hookName)] = Throw e2 \<Longrightarrow>
         ConsoleError (onError_warning plugin) e2
           \<in> set (fst (settle hookName (Caught plugin (Rejects err))))"
  by (auto simp: settle_def split: hook_result.splits option.splits)

lemma executeHook_events:
  "set (snd (executeHook hookName args plugins)) =
     (\<Union>p \<in> set (listPlugins plugins). set (fst (call_plugin hookName args p)))
     \<union> (\<Union>p \<in> set (listPlugins plugins).
          \<Union>w \<in> set (snd (call_plugin hookName args p)). set (fst (settle hookName w)))"
  by (auto simp: executeHook_def call_plugins_concat listPlugins_def Let_def)

lemma executeHook_outcome:
  "fst (executeHook hookName args plugins) =
     (if \<exists>p \<in> set (listPlugins plugins). \<exists>w \<in> set (snd (call_plugin hookName args p)).
           snd (settle hookName w) = NeverSettles
      then Pending else Returns ())"
proof -
  let ?ws = "concat (map (\<lambda>p. snd (call_plugin hookName args p)) (map snd plugins))"
  have "(NeverSettles \<in> (\<lambda>x. snd (settle hookName x)) `
           (\<Union>x\<in>set plugins. set (snd (call_plugin hookName args (snd x))))) =
        (\<exists>p \<in> set (listPlugins plugins). \<exists>w \<in> set (snd (call_plugin hookName args p)).
           snd (settle hookName w) = NeverSettles)"
    by (force simp: listPlugins_def image_iff)
  then show ?thesis
    by (simp add: executeHook_def call_plugins_concat Let_def image_image)
qed

lemma waits_for:
  "(\<exists>w \<in> set (snd (call_plugin hookName args p)). snd (settle hookName w) = NeverSettles) =
   (\<exists>hook. handler_of hookName p = Some hook
      \<and> (hook args = Promise NeverSettles
           \<or> (\<exists>err h. (hook args = Throw err \<or> hook args = Promise (Rejects err))
                 \<and> onError_of p = Some h
                 \<and> h [err, Str (error_context hookName)] = Promise NeverSettles)))"
proof (cases "handler_of hookName p")
  case None
  then show ?thesis by (simp add: call_plugin_def)
next
  case (Some hook)
  show ?thesis
  proof (cases "hook args")
    case (Return v)
    then show ?thesis using Some by (simp add: call_plugin_def)
  next
    case (Throw err)
    then show ?thesis using Some
      by (auto simp: call_plugin_def on_sync_throw_def settle_def
          split: option.splits hook_result.splits)
  next
    case (Promise s)
    then show ?thesis using Some
      by (cases s) (auto simp: call_plugin_def settle_def split: option.splits hook_result.splits)
  qed
qed


lemma logged_errors:
  "(ConsoleError t e2 \<in> set (fst (call_plugin hookName args p))
      \<union> (\<Union>w \<in> set (snd (call_plugin hookName args p)). set (fst (settle hookName w)))) =
   (\<exists>hook err h. handler_of hookName p = Some hook
      \<and> (hook args = Throw err \<or> hook args = Promise (Rejects err))
      \<and> onError_of p = Some h
      \<and> h [err, Str (error_context hookName)] = Throw e2
      \<and> t = onError_warning p)"
proof (cases "handler_of hookName p")
  case None
  then show ?thesis by (simp add: call_plugin_def)
next
  case (Some hook)
  show ?thesis
  proof (cases "hook args")
    case (Return v)
    then show ?thesis using Some by (simp add: call_plugin_def)
  next
    case (Throw err)
    then show ?thesis using Some
      by (auto simp: call_plugin_def on_sync_throw_def settle_def
          split: option.splits hook_result.splits)
  next
    case (Promise s)
    then show ?thesis using Some
      by (cases s) (auto simp: call_plugin_def settle_def split: option.splits hook_result.splits)
  qed
qed

lemma logged_warnings:
  "(ConsoleWarn t e \<in> set (fst (call_plugin hookName args p))
      \<union> (\<Union>w \<in> set (snd (call_plugin hookName args p)). set (fst (settle hookName w)))) =
   (\<exists>hook. handler_of hookName p = Some hook
      \<and> (hook args = Throw e \<or> hook args = Promise (Rejects e))
      \<and> t = hook_warning p hookName)"
proof (cases "handler_of hookName p")
  case None
  then show ?thesis by (simp add: call_plugin_def)
next
  case (Some hook)
  show ?thesis
  proof (cases "hook args")
    case (Return v)
    then show ?thesis using Some by (simp add: call_plugin_def)
  next
    case (Throw err)
    then show ?thesis using Some
      by (auto simp: call_plugin_def on_sync_throw_def settle_def
          split: option.splits hook_result.splits)
  next
    case (Promise s)
    then show ?thesis using Some
      by (cases s) (auto simp: call_plugin_def settle_def split: option.splits hook_result.splits)
  qed
qed



text \<open>
  Claim C2, as amended. For every event, argument list and set of installed plugins:
  \<open>executeHook\<close> never rejects. It waits for every promise handed back by a handler and
  for every promise handed back by an \<open>onError\<close> hook that was called: the call is
  pending exactly when one of these promises never settles, and returns otherwise, also
  when they reject. Every plugin that defines a handler for the event has
  it invoked, whatever the other plugins' handlers do; a handler that throws or whose
  promise rejects gets a warning logged for its plugin and, when the plugin defines
  \<open>onError\<close>, that hook is called with the error and the context \<open>hook:<eventName>\<close>.
  The warnings logged are exactly those for failed handlers, and the errors logged are
  exactly those for an \<open>onError\<close> that throws synchronously: a rejection of the promise
  of \<open>onError\<close> leaves no line.
\<close>

theorem executeHook_isolates_failures:
  "(\<forall>e. fst (executeHook hookName args plugins) \<noteq> Throws e)
   \<and> fst (executeHook hookName args plugins) =
       (if \<exists>p \<in> set (listPlugins plugins). \<exists>f.
             handler_of hookName p = Some f
             \<and> (f args = Promise NeverSettles
                  \<or> (\<exists>x g. (f args = Throw x \<or> f args = Promise (Rejects x))
                        \<and> onError_of p = Some g
                        \<and> g [x, Str (''hook:'' @ hook_key hookName)] = Promise NeverSettles))
        then Pending else Returns ())
   \<and> (plugin \<in> set (listPlugins plugins) \<and> handler_of hookName plugin = Some hook \<longrightarrow>
        HookCalled (plugin_name plugin) hookName args
          \<in> set (snd (executeHook hookName args plugins))
        \<and> (hook args = Throw err \<or> hook args = Promise (Rejects err) \<longrightarrow>
             ConsoleWarn (hook_warning plugin hookName) err
               \<in> set (snd (executeHook hookName args plugins))
             \<and> (onError_of plugin = Some h \<longrightarrow>
                  OnErrorCalled (plugin_name plugin) err (''hook:'' @ hook_key hookName)
                    \<in> set (snd (executeHook hookName args plugins))
                  \<and> (h [err, Str (''hook:'' @ hook_key hookName)] = Throw e2 \<longrightarrow>
                       ConsoleError (onError_warning plugin) e2
                         \<in> set (snd (executeHook hookName args plugins))))))
   \<and> (ConsoleWarn t e \<in> set (snd (executeHook hookName args plugins))) =
       (\<exists>p \<in> set (listPlugins plugins). \<exists>f.
          handler_of hookName p = Some f
          \<and> (f args = Throw e \<or> f args = Promise (Rejects e))
          \<and> t = hook_warning p hookName)
   \<and> (ConsoleError t e \<in> set (snd (executeHook hookName args plugins))) =
       (\<exists>p \<in> set (listPlugins plugins). \<exists>f x g.
          handler_of hookName p = Some f
          \<and> (f args = Throw x \<or> f args = Promise (Rejects x))
          \<and> onError_of p = Some g
          \<and> g [x, Str (''hook:'' @ hook_key hookName)] = Throw e
          \<and> t = onError_warning p)"
proof -
  let ?evs = "set (snd (executeHook hookName args plugins))"
  have outcome: "fst (executeHook hookName args plugins) =
       (if \<exists>p \<in> set (listPlugins plugins). \<exists>f.
             handler_of hookName p = Some f
             \<and> (f args = Promise NeverSettles
                  \<or> (\<exists>x g. (f args = Throw x \<or> f args = Promise (Rejects x))
                        \<and> onError_of p = Some g
                        \<and> g [x, Str (''hook:'' @ hook_key hookName)] = Promise NeverSettles))
        then Pending else Returns ())"
    unfolding executeHook_outcome waits_for error_context_def ..
  have never: "\<forall>e. fst (executeHook hookName args plugins) \<noteq> Throws e"
    by (simp add: executeHook_outcome)
  have each: "HookCalled (plugin_name plugin) hookName args \<in> ?evs
        \<and> (hook args = Throw err \<or> hook args = Promise (Rejects err) \<longrightarrow>
             ConsoleWarn (hook_warning plugin hookName) err \<in> ?evs
             \<and> (onError_of plugin = Some h \<longrightarrow>
                  OnErrorCalled (plugin_name plugin) err (''hook:'' @ hook_key hookName) \<in> ?evs
                  \<and> (h [err, Str (''hook:'' @ hook_key hookName)] = Throw e2 \<longrightarrow>
                       ConsoleError (onError_warning plugin) e2 \<in> ?evs)))"
    if mem: "plugin \<in> set (listPlugins plugins)" and hd: "handler_of hookName plugin = Some hook"
  proof -
    have sync: "x \<in> set (fst (call_plugin hookName args plugin)) \<Longrightarrow> x \<in> ?evs" for x
      using mem by (auto simp: executeHook_events)
    have later: "w \<in> set (snd (call_plugin hookName args plugin)) \<Longrightarrow>
                 x \<in> set (fst (settle hookName w)) \<Longrightarrow> x \<in> ?evs" for w x
      using mem by (auto simp: executeHook_events)
    have called: "HookCalled (plugin_name plugin) hookName args \<in> ?evs"
      using sync call_plugin_called[OF hd] by blast
    have thrown: "ConsoleWarn (hook_warning plugin hookName) err \<in> ?evs
             \<and> (onError_of plugin = Some h \<longrightarrow>
                  OnErrorCalled (plugin_name plugin) err (error_context hookName) \<in> ?evs
                  \<and> (h [err, Str (error_context hookName)] = Throw e2 \<longrightarrow>
                       ConsoleError (onError_warning plugin) e2 \<in> ?evs))"
      if "hook args = Throw err"
      using sync call_plugin_throw[OF hd that] by blast
    have rejected: "ConsoleWarn (hook_warning plugin hookName) err \<in> ?evs
             \<and> (onError_of plugin = Some h \<longrightarrow>
                  OnErrorCalled (plugin_name plugin) err (error_context hookName) \<in> ?evs
                  \<and> (h [err, Str (error_context hookName)] = Throw e2 \<longrightarrow>
                       ConsoleError (onError_warning plugin) e2 \<in> ?evs))"
      if "hook args = Promise (Rejects err)"
      using later[OF call_plugin_reject[OF hd that]] settle_reject
      by blast
    from called thrown rejected show ?thesis
      unfolding error_context_def by blast
  qed
  have split_events: "(x \<in> ?evs) =
      (\<exists>p \<in> set (listPlugins plugins).
         x \<in> set (fst (call_plugin hookName args p))
               \<union> (\<Union>w \<in> set (snd (call_plugin hookName args p)). set (fst (settle hookName w))))"
    for x
    unfolding executeHook_events by blast
  have warns: "(ConsoleWarn t e \<in> ?evs) =
       (\<exists>p \<in> set (listPlugins plugins). \<exists>f.
          handler_of hookName p = Some f
          \<and> (f args = Throw e \<or> f args = Promise (Rejects e))
          \<and> t = hook_warning p hookName)"
    unfolding split_events logged_warnings ..
  have errors: "(ConsoleError t e \<in> ?evs) =
       (\<exists>p \<in> set (listPlugins plugins). \<exists>f x g.
          handler_of hookName p = Some f
          \<and> (f args = Throw x \<or> f args = Promise (Rejects x))
          \<and> onError_of p = Some g
          \<and> g [x, Str (''hook:'' @ hook_key hookName)] = Throw e
          \<and> t = onError_warning p)"
    unfolding split_events logged_errors error_context_def ..
  from never outcome each warns errors show ?thesis by blast
qed

theorem executeHook_isolates_failures_witness:
  "plugin_one \<in> set (listPlugins demo_registry)
   \<and> plugin_three \<in> set (listPlugins demo_registry)
   \<and> handler_of BeforeGenerate plugin_two = Some (\<lambda>args. Throw demo_failure)
   \<and> fst (executeHook BeforeGenerate [Str ''cfg''] demo_registry) = Returns ()
   \<and> HookCalled (Str ''one'') BeforeGenerate [Str ''cfg'']
       \<in> set (snd (executeHook BeforeGenerate [Str ''cfg''] demo_registry))
   \<and> HookCalled (Str ''three'') BeforeGenerate [Str ''cfg'']
       \<in> set (snd (executeHook BeforeGenerate [Str ''cfg''] demo_registry))
   \<and> ConsoleWarn (hook_warning plugin_two BeforeGenerate) demo_failure
       \<in> set (snd (executeHook BeforeGenerate [Str ''cfg''] demo_registry))
   \<and> OnErrorCalled (Str ''two'') demo_failure ''hook:beforeGenerate''
       \<in> set (snd (executeHook BeforeGenerate [Str ''cfg''] demo_registry))
   \<and> ConsoleWarn (hook_warning plugin_three BeforeGenerate) demo_failure
       \<in> set (snd (executeHook BeforeGenerate [Str ''cfg''] demo_registry))
   \<and> OnErrorCalled (Str ''three'') demo_failure ''hook:beforeGenerate''
       \<in> set (snd (executeHook BeforeGenerate [Str ''cfg''] demo_registry))
   \<and> ConsoleError (onError_warning plugin_three) demo_second_failure
       \<in> set (snd (executeHook BeforeGenerate [Str ''cfg''] demo_registry))
   \<and> ConsoleError (onError_warning plugin_two) demo_second_failure
       \<notin> set (snd (executeHook BeforeGenerate [Str ''cfg''] demo_registry))
   \<and> fst (executeHook BeforeGenerate [Str ''cfg''] (demo_registry @ [(Str ''five'', plugin_five)]))
       = Pending
   \<and> HookCalled (Str ''three'') BeforeGenerate [Str ''cfg'']
       \<in> set (snd (executeHook BeforeGenerate [Str ''cfg'']
                       (demo_registry @ [(Str ''five'', plugin_five)])))"
proof -
  let ?evs = "set (snd (executeHook BeforeGenerate [Str ''cfg''] demo_registry))"
  let ?more = "demo_registry @ [(Str ''five'', plugin_five)]"
  have l: "listPlugins demo_registry = [plugin_one, plugin_two, plugin_three]"
    and l5: "listPlugins ?more = [plugin_one, plugin_two, plugin_three, plugin_five]"
    by (simp_all add: listPlugins_def demo_registry_def)
  have h1: "handler_of BeforeGenerate plugin_one = Some (\<lambda>args. Return Undefined)"
    and h2: "handler_of BeforeGenerate plugin_two = Some (\<lambda>args. Throw demo_failure)"
    and h3: "handler_of BeforeGenerate plugin_three = Some (\<lambda>args. Promise (Rejects demo_failure))"
    and h5: "handler_of BeforeGenerate plugin_five = Some (\<lambda>args. Promise NeverSettles)"
    and o1: "onError_of plugin_one = None"
    and o2: "onError_of plugin_two = Some (\<lambda>args. Promise (Rejects demo_second_failure))"
    and o3: "onError_of plugin_three = Some (\<lambda>args. Throw demo_second_failure)"
    and n: "plugin_name plugin_one = Str ''one''" "plugin_name plugin_two = Str ''two''"
      "plugin_name plugin_three = Str ''three''"
    by (simp_all add: handler_of_def onError_of_def plugin_one_def plugin_two_def
        plugin_three_def plugin_five_def demo_plugin_def no_hooks_def)
  note one = executeHook_isolates_failures[of BeforeGenerate "[Str ''cfg'']" demo_registry
      plugin_one "\<lambda>args. Return Undefined"]
  note two = executeHook_isolates_failures[of BeforeGenerate "[Str ''cfg'']" demo_registry
      plugin_two "\<lambda>args. Throw demo_failure" demo_failure
      "\<lambda>args. Promise (Rejects demo_second_failure)" _ "onError_warning plugin_two"
      demo_second_failure]
  note three = executeHook_isolates_failures[of BeforeGenerate "[Str ''cfg'']" demo_registry
      plugin_three "\<lambda>args. Promise (Rejects demo_failure)" demo_failure
      "\<lambda>args. Throw demo_second_failure" demo_second_failure]
  note five = executeHook_isolates_failures[of BeforeGenerate "[Str ''cfg'']" ?more
      plugin_three "\<lambda>args. Promise (Rejects demo_failure)"]
  have m: "plugin_one \<in> set (listPlugins demo_registry)"
    "plugin_two \<in> set (listPlugins demo_registry)"
    "plugin_three \<in> set (listPlugins demo_registry)"
    "plugin_three \<in> set (listPlugins ?more)"
    using l l5 by simp_all
  from one[THEN conjunct2, THEN conjunct1]
  have r: "fst (executeHook BeforeGenerate [Str ''cfg''] demo_registry) = Returns ()"
    by (simp add: l h1 h2 h3 o1 o2 o3)
  from five[THEN conjunct2, THEN conjunct1]
  have w: "fst (executeHook BeforeGenerate [Str ''cfg''] ?more) = Pending"
    by (simp add: l5 h1 h2 h3 h5 o1 o2 o3)
  from five[THEN conjunct2, THEN conjunct2, THEN conjunct1] m(4) h3 n(3)
  have w3: "HookCalled (Str ''three'') BeforeGenerate [Str ''cfg'']
              \<in> set (snd (executeHook BeforeGenerate [Str ''cfg''] ?more))"
    by simp
  from one[THEN conjunct2, THEN conjunct2, THEN conjunct1] m(1) h1 n(1)
  have a: "HookCalled (Str ''one'') BeforeGenerate [Str ''cfg''] \<in> ?evs"
    by simp
  from two[THEN conjunct2, THEN conjunct2, THEN conjunct1] m(2) h2 o2 n(2)
  have b: "ConsoleWarn (hook_warning plugin_two BeforeGenerate) demo_failure \<in> ?evs"
    "OnErrorCalled (Str ''two'') demo_failure ''hook:beforeGenerate'' \<in> ?evs"
    by simp_all
  from three[THEN conjunct2, THEN conjunct2, THEN conjunct1] m(3) h3 o3 n(3)
  have c: "HookCalled (Str ''three'') BeforeGenerate [Str ''cfg''] \<in> ?evs"
    "ConsoleWarn (hook_warning plugin_three BeforeGenerate) demo_failure \<in> ?evs"
    "OnErrorCalled (Str ''three'') demo_failure ''hook:beforeGenerate'' \<in> ?evs"
    "ConsoleError (onError_warning plugin_three) demo_second_failure \<in> ?evs"
    by simp_all
  have differ: "onError_warning plugin_two \<noteq> onError_warning plugin_three"
    by (simp add: onError_warning_def n quoted_def)
  from two[THEN conjunct2, THEN conjunct2, THEN conjunct2, THEN conjunct2]
  have d: "ConsoleError (onError_warning plugin_two) demo_second_failure \<notin> ?evs"
    by (simp add: l h1 h2 h3 o1 o2 o3 differ)
  from m h2 r a b c d w w3 show ?thesis by blast
qed

text \<open>
  The claim as stated has every failure of \<open>onError\<close> logged. The handler of the plugin
  throws and its \<open>onError\<close> hands back a promise that rejects: the call returns, and the
  log holds the warning for the handler and nothing about the failure of \<open>onError\<close>.
\<close>

theorem onError_rejection_counterexample:
  "handler_of BeforeGenerate plugin_two = Some (\<lambda>args. Throw demo_failure)
   \<and> onError_of plugin_two = Some (\<lambda>args. Promise (Rejects demo_second_failure))
   \<and> executeHook BeforeGenerate [] [(Str ''two'', plugin_two)]
       = (Returns (),
          [HookCalled (Str ''two'') BeforeGenerate [],
           ConsoleWarn (hook_warning plugin_two BeforeGenerate) demo_failure,
           OnErrorCalled (Str ''two'') demo_failure ''hook:beforeGenerate''])"
  by (simp add: executeHook_def call_plugin_def on_sync_throw_def settle_def handler_of_def
      onError_of_def plugin_two_def demo_plugin_def no_hooks_def error_context_def)

section \<open>Properties of the project generator\<close>

subsection \<open>Sequencing and catching\<close>

lemma bind_io_then_ReturnsD:
  "bind_io m (\<lambda>_. k) h = (Returns y, h'') \<Longrightarrow> \<exists>h'. m h = (Returns (), h') \<and> k h' = (Returns y, h'')"
  by (auto simp: bind_io_def split: prod.splits outcome.splits)

lemma rethrow_ReturnsD:
  "catch_io m (\<lambda>error. if c error then throw_io (w error) else throw_io error) h = (Returns y, h')
   \<Longrightarrow> m h = (Returns y, h')"
  by (auto simp: catch_io_def throw_io_def split: prod.splits outcome.splits if_splits)

subsection \<open>The history only grows\<close>

lemma bind_io_grows:
  assumes "\<And>h. \<exists>evs. snd (m h) = h @ evs" and "\<And>x h. \<exists>evs. snd (f x h) = h @ evs"
  shows "\<exists>evs. snd (bind_io m f h) = h @ evs"
proof -
  obtain r h1 where mh: "m h = (r, h1)" by (cases "m h") auto
  from assms(1)[of h] mh obtain e1 where h1: "h1 = h @ e1" by auto
  show ?thesis
  proof (cases r)
    case (Returns x)
    from assms(2)[of x h1] obtain e2 where "snd (f x h1) = h1 @ e2" by auto
    then show ?thesis using mh Returns h1 by (simp add: bind_io_def)
  qed (use mh h1 in \<open>simp_all add: bind_io_def\<close>)
qed

lemma catch_io_grows:
  assumes "\<And>h. \<exists>evs. snd (m h) = h @ evs" and "\<And>e h. \<exists>evs. snd (k e h) = h @ evs"
  shows "\<exists>evs. snd (catch_io m k h) = h @ evs"
proof -
  obtain r h1 where mh: "m h = (r, h1)" by (cases "m h") auto
  from assms(1)[of h] mh obtain e1 where h1: "h1 = h @ e1" by auto
  show ?thesis
  proof (cases r)
    case (Throws e)
    from assms(2)[of e h1] obtain e2 where "snd (k e h1) = h1 @ e2" by auto
    then show ?thesis using mh Throws h1 by (simp add: catch_io_def)
  qed (use mh h1 in \<open>simp_all add: catch_io_def\<close>)
qed

lemma basic_grows:
  "\<exists>evs. snd (return_io x h) = h @ evs"
  "\<exists>evs. snd (throw_io e h) = h @ evs"
  "\<exists>evs. snd (emit ev h) = h @ evs"
  "\<exists>evs. snd (call ev oc h) = h @ evs"
  by (simp_all add: return_io_def throw_io_def emit_def call_def)

lemma installDependencies_grows: "\<exists>evs. snd (installDependencies nd p h) = h @ evs"
  unfolding installDependencies_def
  by (intro bind_io_grows catch_io_grows basic_grows) (simp add: basic_grows)

lemma install_step_grows: "\<exists>evs. snd (install_step nd template config p h) = h @ evs"
  by (simp add: install_step_def installDependencies_grows basic_grows)

lemma postInstall_step_grows: "\<exists>evs. snd (postInstall_step template config p h) = h @ evs"
  by (simp add: postInstall_step_def basic_grows split: option.splits)

subsection \<open>Writing files\<close>

lemma ensureDir_history: "snd (ensureDir nd p h) = h @ [Mkdir p]"
  by (auto simp: ensureDir_def catch_io_def call_def throw_io_def return_io_def
      split: outcome.splits)

lemma writeFile_ReturnsD:
  assumes "writeFile nd p c h = (Returns (), h')"
  shows "h' = h @ [Mkdir (path_dirname nd p), WriteFile p c]"
proof -
  from bind_io_then_ReturnsD[OF assms[unfolded writeFile_def]]
  obtain h1 where e: "ensureDir nd (path_dirname nd p) h = (Returns (), h1)"
    and c: "call (WriteFile p c) (\<lambda>h. fsWriteFile nd h p c) h1 = (Returns (), h')"
    by auto
  from e ensureDir_history[of nd "path_dirname nd p" h]
  have "h1 = h @ [Mkdir (path_dirname nd p)]" by simp
  with c show ?thesis by (simp add: call_def)
qed

lemma generatePackageJson_ReturnsD:
  assumes "generatePackageJson nd template config p h = (Returns (), h')"
  shows "h' = h @ [Mkdir (path_dirname nd (path_join nd p ''package.json'')),
                  WriteFile (path_join nd p ''package.json'')
                    (JSON_stringify nd (packageJson template config) 2)]"
proof -
  from assms have "writeJson nd (path_join nd p ''package.json'') (packageJson template config) 2 h
                     = (Returns (), h')"
    unfolding generatePackageJson_def by (rule rethrow_ReturnsD)
  then show ?thesis unfolding writeJson_def by (rule writeFile_ReturnsD)
qed

lemma write_project_ReturnsD:
  assumes "write_project nd template config p h = (Returns (), h')"
  shows "WriteFile (path_join nd p ''package.json'')
           (JSON_stringify nd (packageJson template config) 2) \<in> set h'"
proof -
  from bind_io_then_ReturnsD[OF assms[unfolded write_project_def]]
  obtain h1 where
    "bind_io (generateFiles nd template config p)
       (\<lambda>_. generatePackageJson nd template config p) h1 = (Returns (), h')"
    by auto
  from bind_io_then_ReturnsD[OF this] obtain h2 where
    "generatePackageJson nd template config p h2 = (Returns (), h')"
    by auto
  from generatePackageJson_ReturnsD[OF this] show ?thesis by simp
qed

lemma until_postInstall_ReturnsD:
  assumes "until_postInstall nd template config p h = (Returns (), h')"
  shows "WriteFile (path_join nd p ''package.json'')
           (JSON_stringify nd (packageJson template config) 2) \<in> set h'"
proof -
  from bind_io_then_ReturnsD[OF assms[unfolded until_postInstall_def]]
  obtain h1 where w: "write_project nd template config p h = (Returns (), h1)"
    and i: "install_step nd template config p h1 = (Returns (), h')"
    by auto
  from install_step_grows[of nd template config p h1] i obtain evs where "h' = h1 @ evs"
    by auto
  with write_project_ReturnsD[OF w] show ?thesis by simp
qed

lemma generate_ReturnsD:
  assumes "generate nd template config h = (Returns (), h')"
  shows "\<exists>h2. until_postInstall nd template config (projectPath_of nd config) h = (Returns (), h2)
              \<and> postInstall_step template config (projectPath_of nd config) h2 = (Returns (), h')"
proof -
  from assms have
    "bind_io (until_postInstall nd template config (projectPath_of nd config))
       (\<lambda>_. postInstall_step template config (projectPath_of nd config)) h = (Returns (), h')"
    unfolding generate_def by (rule rethrow_ReturnsD)
  then show ?thesis by (rule bind_io_then_ReturnsD)
qed

lemma generate_after:
  assumes "until_postInstall nd template config (projectPath_of nd config) h = (r, h2)"
  shows "generate nd template config h =
     (case r of
        Returns _ \<Rightarrow>
          (case template_postInstall template of
             None \<Rightarrow> (Returns (), h2)
           | Some f \<Rightarrow>
               (case f h2 (projectPath_of nd config) (config_answers config) of
                  Returns _ \<Rightarrow> Returns ()
                | Throws e \<Rightarrow>
                    Throws (if instanceof_Error e
                            then ErrorFactory_filesystem
                                   ([Str ''Failed to generate project: ''] @ message e)
                                   (generate_context config)
                            else e)
                | Pending \<Rightarrow> Pending,
                h2 @ [PostInstall (projectPath_of nd config) (config_answers config)]))
      | Throws e \<Rightarrow>
          (Throws (if instanceof_Error e
                   then ErrorFactory_filesystem
                          ([Str ''Failed to generate project: ''] @ message e)
                          (generate_context config)
                   else e), h2)
      | Pending \<Rightarrow> (Pending, h2))"
  using assms
  by (simp add: generate_def bind_io_def catch_io_def postInstall_step_def call_def
      return_io_def throw_io_def split: outcome.splits option.splits)

subsection \<open>The manifest\<close>

lemma ensureDir_returns:
  "(fst (ensureDir nd d h) = Returns ()) =
     (mkdir nd h d = Returns ()
      \<or> (\<exists>e. mkdir nd h d = Throws e
             \<and> \<not> (instanceof_Error e
                    \<and> (\<exists>c. own_property e ''code'' = Some c \<and> c \<noteq> Str ''EEXIST''))))"
  by (cases "mkdir nd h d")
    (auto simp: ensureDir_def catch_io_def call_def throw_io_def return_io_def
      split: option.splits)

lemma ensureDir_cases:
  obtains r where "ensureDir nd d h = (r, h @ [Mkdir d])"
  using ensureDir_history[of nd d h] by (cases "ensureDir nd d h") auto

lemma generatePackageJson_history:
  "snd (generatePackageJson nd template config p h)
     = h @ Mkdir (path_dirname nd (path_join nd p ''package.json''))
         # (if fst (ensureDir nd (path_dirname nd (path_join nd p ''package.json'')) h) = Returns ()
            then [WriteFile (path_join nd p ''package.json'')
                    (JSON_stringify nd (packageJson template config) 2)]
            else [])"
proof -
  let ?d = "path_dirname nd (path_join nd p ''package.json'')"
  obtain r where e: "ensureDir nd ?d h = (r, h @ [Mkdir ?d])" by (rule ensureDir_cases)
  show ?thesis
    by (cases r)
      (simp_all add: generatePackageJson_def writeJson_def writeFile_def bind_io_def
        catch_io_def call_def throw_io_def e split: outcome.splits)
qed

lemma generatePackageJson_returns:
  "(fst (generatePackageJson nd template config p h) = Returns ())
     = (fst (ensureDir nd (path_dirname nd (path_join nd p ''package.json'')) h) = Returns ()
        \<and> fsWriteFile nd (h @ [Mkdir (path_dirname nd (path_join nd p ''package.json''))])
             (path_join nd p ''package.json'')
             (JSON_stringify nd (packageJson template config) 2) = Returns ())"
proof -
  let ?d = "path_dirname nd (path_join nd p ''package.json'')"
  obtain r where e: "ensureDir nd ?d h = (r, h @ [Mkdir ?d])" by (rule ensureDir_cases)
  show ?thesis
    by (cases r)
      (auto simp: generatePackageJson_def writeJson_def writeFile_def bind_io_def
        catch_io_def call_def throw_io_def e split: outcome.splits)
qed

lemma generate_extends:
  "\<exists>evs. snd (generate nd template config h)
            = snd (until_postInstall nd template config (projectPath_of nd config) h) @ evs"
proof -
  obtain r h2 where u: "until_postInstall nd template config (projectPath_of nd config) h = (r, h2)"
    by (cases "until_postInstall nd template config (projectPath_of nd config) h") auto
  show ?thesis
    unfolding generate_after[OF u] u
    by (cases r) (auto split: option.splits)
qed

lemma generate_writes_manifest:
  assumes "ensureDir nd (projectPath_of nd config) h = (Returns (), h0)"
    and "generateFiles nd template config (projectPath_of nd config) h0 = (Returns (), h1)"
  shows "\<exists>evs. snd (generate nd template config h)
            = snd (generatePackageJson nd template config (projectPath_of nd config) h1) @ evs"
proof -
  let ?p = "projectPath_of nd config"
  have w: "write_project nd template config ?p h = generatePackageJson nd template config ?p h1"
    using assms by (simp add: write_project_def bind_io_def)
  obtain r h2 where g: "generatePackageJson nd template config ?p h1 = (r, h2)"
    by (cases "generatePackageJson nd template config ?p h1") auto
  have "\<exists>evs. snd (until_postInstall nd template config ?p h) = h2 @ evs"
  proof (cases r)
    case (Returns x)
    then show ?thesis
      using install_step_grows[of nd template config ?p h2] w g
      by (simp add: until_postInstall_def bind_io_def)
  qed (use w g in \<open>simp_all add: until_postInstall_def bind_io_def\<close>)
  then obtain e1 where "snd (until_postInstall nd template config ?p h) = h2 @ e1" by blast
  moreover from generate_extends[of nd template config h] obtain e2 where
    "snd (generate nd template config h) = snd (until_postInstall nd template config ?p h) @ e2"
    by blast
  ultimately have "snd (generate nd template config h) = h2 @ (e1 @ e2)" by simp
  then show ?thesis using g by auto
qed



text \<open>
  Claim C9. The document \<open>generatePackageJson\<close> composes is the specified one: \<open>name\<close>,
  \<open>version\<close> \<open>0.1.0\<close>, \<open>private\<close> \<open>true\<close>, \<open>scripts\<close>, \<open>dependencies\<close>,
  \<open>devDependencies\<close>, \<open>peerDependencies\<close>, in this order, from the template's scripts and
  its three dependency maps (the fields \<open>dependencies\<close>, \<open>devDepencies\<close> and
  \<open>peerDependencies\<close> of \<open>TemplateConfig.dependencies\<close>), each empty when absent.
  \<open>generatePackageJson\<close> makes sure of the directory and then writes exactly that
  document, printed with two spaces, to \<open>package.json\<close> in the project directory: the
  write is issued whenever the directory step returns (it fails only when \<open>mkdir\<close>
  throws an \<open>Error\<close> that carries a code other than \<open>EEXIST\<close>, and hangs only when
  \<open>mkdir\<close> does), nothing else is written, and the function returns exactly when in
  addition the write succeeds. \<open>generate\<close> runs it once the project directory and the template's files are
  done, and whenever \<open>generate\<close> returns, that write is part of what it did.
\<close>

theorem manifest_document:
  "packageJson template config
     = manifest_as_specified (config_projectName config) (template_scripts template)
         (Option.bind (template_dependencies template) dependencies)
         (Option.bind (template_dependencies template) devDepencies)
         (Option.bind (template_dependencies template) peerDependencies)
   \<and> snd (generatePackageJson nd template config projectPath h)
       = h @ Mkdir (path_dirname nd (path_join nd projectPath ''package.json''))
           # (if fst (ensureDir nd (path_dirname nd (path_join nd projectPath ''package.json'')) h)
                  = Returns ()
              then [WriteFile (path_join nd projectPath ''package.json'')
                      (JSON_stringify nd (packageJson template config) 2)]
              else [])
   \<and> (fst (generatePackageJson nd template config projectPath h) = Returns ())
       = (fst (ensureDir nd (path_dirname nd (path_join nd projectPath ''package.json'')) h)
            = Returns ()
          \<and> fsWriteFile nd
               (h @ [Mkdir (path_dirname nd (path_join nd projectPath ''package.json''))])
               (path_join nd projectPath ''package.json'')
               (JSON_stringify nd (packageJson template config) 2) = Returns ())
   \<and> (fst (ensureDir nd dir h) = Returns ())
       = (mkdir nd h dir = Returns ()
          \<or> (\<exists>e. mkdir nd h dir = Throws e
                 \<and> \<not> (instanceof_Error e
                        \<and> (\<exists>c. own_property e ''code'' = Some c \<and> c \<noteq> Str ''EEXIST''))))
   \<and> (ensureDir nd (path_join nd (config_outputPath config) (config_projectName config)) h
          = (Returns (), h0)
        \<and> generateFiles nd template config
            (path_join nd (config_outputPath config) (config_projectName config)) h0
          = (Returns (), h1) \<longrightarrow>
        (\<exists>evs. snd (generate nd template config h)
                 = snd (generatePackageJson nd template config
                          (path_join nd (config_outputPath config) (config_projectName config)) h1)
                   @ evs))
   \<and> (generate nd template config h = (Returns (), h2) \<longrightarrow>
        WriteFile (path_join nd (path_join nd (config_outputPath config) (config_projectName config))
                     ''package.json'')
          (JSON_stringify nd (packageJson template config) 2) \<in> set h2)"
proof (intro conjI impI)
  show "packageJson template config
     = manifest_as_specified (config_projectName config) (template_scripts template)
         (Option.bind (template_dependencies template) dependencies)
         (Option.bind (template_dependencies template) devDepencies)
         (Option.bind (template_dependencies template) peerDependencies)"
    by (cases "template_dependencies template")
      (simp_all add: packageJson_def manifest_as_specified_def record_obj_def or_empty_def
        dependency_map_def)
next
  show "snd (generatePackageJson nd template config projectPath h)
       = h @ Mkdir (path_dirname nd (path_join nd projectPath ''package.json''))
           # (if fst (ensureDir nd (path_dirname nd (path_join nd projectPath ''package.json'')) h)
                  = Returns ()
              then [WriteFile (path_join nd projectPath ''package.json'')
                      (JSON_stringify nd (packageJson template config) 2)]
              else [])"
    by (rule generatePackageJson_history)
next
  show "(fst (generatePackageJson nd template config projectPath h) = Returns ())
       = (fst (ensureDir nd (path_dirname nd (path_join nd projectPath ''package.json'')) h)
            = Returns ()
          \<and> fsWriteFile nd
               (h @ [Mkdir (path_dirname nd (path_join nd projectPath ''package.json''))])
               (path_join nd projectPath ''package.json'')
               (JSON_stringify nd (packageJson template config) 2) = Returns ())"
    by (rule generatePackageJson_returns)
next
  show "(fst (ensureDir nd dir h) = Returns ())
       = (mkdir nd h dir = Returns ()
          \<or> (\<exists>e. mkdir nd h dir = Throws e
                 \<and> \<not> (instanceof_Error e
                        \<and> (\<exists>c. own_property e ''code'' = Some c \<and> c \<noteq> Str ''EEXIST''))))"
    by (rule ensureDir_returns)
next
  assume "ensureDir nd (path_join nd (config_outputPath config) (config_projectName config)) h
          = (Returns (), h0)
        \<and> generateFiles nd template config
            (path_join nd (config_outputPath config) (config_projectName config)) h0
          = (Returns (), h1)"
  then show "\<exists>evs. snd (generate nd template config h)
                 = snd (generatePackageJson nd template config
                          (path_join nd (config_outputPath config) (config_projectName config)) h1)
                   @ evs"
    using generate_writes_manifest[of nd config h h0 template h1]
    by (simp add: projectPath_of_def)
next
  assume "generate nd template config h = (Returns (), h2)"
  from generate_ReturnsD[OF this] obtain h3 where
    u: "until_postInstall nd template config (projectPath_of nd config) h = (Returns (), h3)"
    and p: "postInstall_step template config (projectPath_of nd config) h3 = (Returns (), h2)"
    by blast
  from postInstall_step_grows[of template config "projectPath_of nd config" h3] p
  obtain evs where "h2 = h3 @ evs" by auto
  with until_postInstall_ReturnsD[OF u]
  show "WriteFile (path_join nd (path_join nd (config_outputPath config) (config_projectName config))
                     ''package.json'')
          (JSON_stringify nd (packageJson template config) 2) \<in> set h2"
    by (simp add: projectPath_of_def)
qed

lemmas run_generator =
  generate_def until_postInstall_def write_project_def install_step_def postInstall_step_def
  generateFiles_def generatePackageJson_def installDependencies_def writeJson_def
  writeFile_def ensureDir_def bind_io_def catch_io_def call_def emit_def return_io_def
  throw_io_def skipped_def content_of_def wants_install_def projectPath_of_def
  demo_node_def demo_template_def demo_config_def demo_dirname_def get_answer_def Object_prototype_def

theorem manifest_document_witness:
  "packageJson (demo_template None) demo_config
     = Obj [(''name'', Str ''app''), (''version'', Str ''0.1.0''), (''private'', Bool True),
            (''scripts'', Obj [(''dev'', Str ''vite'')]),
            (''dependencies'', Obj [(''react'', Str ''^18.2.0'')]),
            (''devDependencies'', Obj []), (''peerDependencies'', Obj [])]
   \<and> mkdir (demo_node (Returns ())) [] ''/tmp/app'' = Returns ()
   \<and> generatePackageJson (demo_node (Returns ())) (demo_template None) demo_config ''/tmp/app'' []
       = (Returns (),
          [Mkdir ''/tmp/app'',
           WriteFile ''/tmp/app/package.json''
             (compact_json (packageJson (demo_template None) demo_config))])
   \<and> ensureDir (demo_node (Returns ())) ''/tmp/app'' [] = (Returns (), [Mkdir ''/tmp/app''])
   \<and> generateFiles (demo_node (Returns ())) (demo_template None) demo_config ''/tmp/app''
        [Mkdir ''/tmp/app'']
       = (Returns (),
          [Mkdir ''/tmp/app'', SpinnerStart ''Generating project files...'',
           Mkdir ''/tmp/app'', Mkdir ''/tmp/app'', WriteFile ''/tmp/app/README.md'' ''# app'',
           SpinnerSucceed ''Project files generated''])
   \<and> (\<exists>evs. snd (generate (demo_node (Returns ())) (demo_template None) demo_config [])
               = [Mkdir ''/tmp/app'', SpinnerStart ''Generating project files...'',
                  Mkdir ''/tmp/app'', Mkdir ''/tmp/app'',
                  WriteFile ''/tmp/app/README.md'' ''# app'',
                  SpinnerSucceed ''Project files generated'', Mkdir ''/tmp/app'',
                  WriteFile ''/tmp/app/package.json''
                    (compact_json (packageJson (demo_template None) demo_config))] @ evs)
   \<and> fst (generate (demo_node (Returns ())) (demo_template None) demo_config []) = Returns ()
   \<and> WriteFile ''/tmp/app/package.json''
         (compact_json (packageJson (demo_template None) demo_config))
       \<in> set (snd (generate (demo_node (Returns ())) (demo_template None) demo_config []))"
proof -
  let ?nd = "demo_node (Returns ())"
  let ?t = "demo_template None"
  let ?h1 = "[Mkdir ''/tmp/app'', SpinnerStart ''Generating project files...'',
           Mkdir ''/tmp/app'', Mkdir ''/tmp/app'', WriteFile ''/tmp/app/README.md'' ''# app'',
           SpinnerSucceed ''Project files generated'']"
  have paths: "path_join ?nd ''/tmp/app'' ''package.json'' = ''/tmp/app/package.json''"
    "path_dirname ?nd ''/tmp/app/package.json'' = ''/tmp/app''"
    "path_join ?nd (config_outputPath demo_config) (config_projectName demo_config) = ''/tmp/app''"
    "JSON_stringify ?nd (packageJson ?t demo_config) 2 = compact_json (packageJson ?t demo_config)"
    by (simp_all add: demo_node_def demo_dirname_def demo_config_def)
  have md: "mkdir ?nd hh ''/tmp/app'' = Returns ()"
    and wr: "fsWriteFile ?nd hh pp cc = Returns ()" for hh pp cc
    by (simp_all add: demo_node_def)
  note inst = manifest_document[of ?t demo_config ?nd "''/tmp/app''" "[]" "''/tmp/app''"
      "[Mkdir ''/tmp/app'']" ?h1, unfolded paths]
  from inst have "packageJson ?t demo_config
     = manifest_as_specified (config_projectName demo_config) (template_scripts ?t)
         (Option.bind (template_dependencies ?t) dependencies)
         (Option.bind (template_dependencies ?t) devDepencies)
         (Option.bind (template_dependencies ?t) peerDependencies)"
    by (rule conjunct1)
  then have a: "packageJson ?t demo_config
     = Obj [(''name'', Str ''app''), (''version'', Str ''0.1.0''), (''private'', Bool True),
            (''scripts'', Obj [(''dev'', Str ''vite'')]),
            (''dependencies'', Obj [(''react'', Str ''^18.2.0'')]),
            (''devDependencies'', Obj []), (''peerDependencies'', Obj [])]"
    by (simp add: manifest_as_specified_def demo_template_def demo_config_def)
  from inst[THEN conjunct2, THEN conjunct2, THEN conjunct2, THEN conjunct1] md
  have dir: "fst (ensureDir ?nd ''/tmp/app'' []) = Returns ()" by simp
  from inst[THEN conjunct2, THEN conjunct1] dir
  have b1: "snd (generatePackageJson ?nd ?t demo_config ''/tmp/app'' [])
              = [Mkdir ''/tmp/app'',
                 WriteFile ''/tmp/app/package.json'' (compact_json (packageJson ?t demo_config))]"
    by simp
  from inst[THEN conjunct2, THEN conjunct2, THEN conjunct1] dir wr
  have b2: "fst (generatePackageJson ?nd ?t demo_config ''/tmp/app'' []) = Returns ()"
    by simp
  from b1 b2 have b: "generatePackageJson ?nd ?t demo_config ''/tmp/app'' []
       = (Returns (),
          [Mkdir ''/tmp/app'',
           WriteFile ''/tmp/app/package.json'' (compact_json (packageJson ?t demo_config))])"
    by (simp add: prod_eq_iff)
  have e: "ensureDir ?nd ''/tmp/app'' [] = (Returns (), [Mkdir ''/tmp/app''])"
    by (simp add: ensureDir_def catch_io_def call_def demo_node_def)
  have f: "generateFiles ?nd ?t demo_config ''/tmp/app'' [Mkdir ''/tmp/app''] = (Returns (), ?h1)"
    by (simp add: generateFiles_def writeFile_def ensureDir_def bind_io_def catch_io_def
        call_def emit_def return_io_def skipped_def content_of_def demo_node_def
        demo_template_def demo_config_def demo_dirname_def)
  obtain h2 where g: "generate ?nd ?t demo_config [] = (Returns (), h2)"
    by (simp add: run_generator)
  from inst[THEN conjunct2, THEN conjunct2, THEN conjunct2, THEN conjunct2, THEN conjunct2] g
  have c: "WriteFile ''/tmp/app/package.json''
         (compact_json (packageJson ?t demo_config)) \<in> set h2"
    by simp
  note later = manifest_document[of ?t demo_config ?nd "''/tmp/app''" ?h1 "''/tmp/app''",
      unfolded paths]
  from later[THEN conjunct2, THEN conjunct2, THEN conjunct2, THEN conjunct1] md
  have dir1: "fst (ensureDir ?nd ''/tmp/app'' ?h1) = Returns ()" by simp
  from later[THEN conjunct2, THEN conjunct1] dir1
  have w1: "snd (generatePackageJson ?nd ?t demo_config ''/tmp/app'' ?h1)
              = ?h1 @ [Mkdir ''/tmp/app'',
                       WriteFile ''/tmp/app/package.json''
                         (compact_json (packageJson ?t demo_config))]"
    by simp
  from inst[THEN conjunct2, THEN conjunct2, THEN conjunct2, THEN conjunct2, THEN conjunct1] e f
  have "\<exists>evs. snd (generate ?nd ?t demo_config [])
               = snd (generatePackageJson ?nd ?t demo_config ''/tmp/app'' ?h1) @ evs"
    by blast
  then have d: "\<exists>evs. snd (generate ?nd ?t demo_config [])
               = [Mkdir ''/tmp/app'', SpinnerStart ''Generating project files...'',
                  Mkdir ''/tmp/app'', Mkdir ''/tmp/app'',
                  WriteFile ''/tmp/app/README.md'' ''# app'',
                  SpinnerSucceed ''Project files generated'', Mkdir ''/tmp/app'',
                  WriteFile ''/tmp/app/package.json''
                    (compact_json (packageJson ?t demo_config))] @ evs"
    unfolding w1 by simp
  from a md[of "[]"] b e f c d g show ?thesis by simp
qed

subsection \<open>The install step\<close>

lemma installDependencies_failed:
  assumes "exec nd (h1 @ [SpinnerStart ''Installing dependencies...'']) ''npm install'' p = Throws error"
  shows "installDependencies nd p h1 =
     (if instanceof_Error error
      then (Throws (ErrorFactory_dependency
                      ([Str ''Failed to install dependencies: ''] @ message error)
                      [(''operation'', Str ''installDependencies''), (''filePath'', Str p)]),
            h1 @ [SpinnerStart ''Installing dependencies...'', Exec ''npm install'' p,
                  SpinnerFail ''Failed to install dependencies''])
      else (Returns (),
            h1 @ [SpinnerStart ''Installing dependencies...'', Exec ''npm install'' p,
                  SpinnerFail ''Failed to install dependencies'',
                  Log [Str ''You can install them manually later with: npm install'']]))"
  using assms
  by (simp add: installDependencies_def bind_io_def catch_io_def call_def emit_def throw_io_def)

text \<open>
  What a failing install command leads to, for a template that declares dependencies and
  answers that do not set \<open>installDeps\<close> to \<open>false\<close>, once the project has been written.
  If the failure is an \<open>Error\<close>, \<open>installDependencies\<close> throws a dependency-category
  error and \<open>generate\<close> rejects with that error wrapped by its own \<open>catch\<close>: nothing
  runs after the failed command. The line that prints the hint is reached only by a
  failure that is not an \<open>Error\<close>.
\<close>

lemma install_failure_outcome:
  assumes written: "write_project nd template config (projectPath_of nd config) h = (Returns (), h1)"
    and wanted: "template_dependencies template \<noteq> None"
      "get_answer (config_answers config) ''installDeps'' \<noteq> Bool False"
    and failed: "exec nd (h1 @ [SpinnerStart ''Installing dependencies...'']) ''npm install''
                   (projectPath_of nd config) = Throws error"
  shows "(instanceof_Error error \<longrightarrow>
            installDependencies nd (projectPath_of nd config) h1
              = (Throws (ErrorFactory_dependency
                           ([Str ''Failed to install dependencies: ''] @ message error)
                           [(''operation'', Str ''installDependencies''),
                            (''filePath'', Str (projectPath_of nd config))]),
                 h1 @ [SpinnerStart ''Installing dependencies...'',
                       Exec ''npm install'' (projectPath_of nd config),
                       SpinnerFail ''Failed to install dependencies''])
            \<and> generate nd template config h
              = (Throws (ErrorFactory_filesystem
                           ([Str ''Failed to generate project: '',
                             Str ''Failed to install dependencies: ''] @ message error)
                           (generate_context config)),
                 h1 @ [SpinnerStart ''Installing dependencies...'',
                       Exec ''npm install'' (projectPath_of nd config),
                       SpinnerFail ''Failed to install dependencies'']))
         \<and> (\<not> instanceof_Error error \<longrightarrow>
              installDependencies nd (projectPath_of nd config) h1
                = (Returns (),
                   h1 @ [SpinnerStart ''Installing dependencies...'',
                         Exec ''npm install'' (projectPath_of nd config),
                         SpinnerFail ''Failed to install dependencies'',
                         Log [Str ''You can install them manually later with: npm install'']])
              \<and> (template_postInstall template = None \<longrightarrow>
                     generate nd template config h
                       = (Returns (),
                          h1 @ [SpinnerStart ''Installing dependencies...'',
                                Exec ''npm install'' (projectPath_of nd config),
                                SpinnerFail ''Failed to install dependencies'',
                                Log [Str ''You can install them manually later with: npm install'']]))
              \<and> (template_postInstall template \<noteq> None \<longrightarrow>
                     PostInstall (projectPath_of nd config) (config_answers config)
                       \<in> set (snd (generate nd template config h))))"
proof -
  let ?p = "projectPath_of nd config"
  note inst = installDependencies_failed[OF failed]
  have step: "install_step nd template config ?p h1 = installDependencies nd ?p h1"
    using wanted by (simp add: install_step_def wants_install_def)
  have until: "until_postInstall nd template config ?p h = installDependencies nd ?p h1"
    using written step by (simp add: until_postInstall_def bind_io_def)
  show ?thesis
  proof (cases "instanceof_Error error")
    case True
    with inst have i: "installDependencies nd ?p h1
              = (Throws (ErrorFactory_dependency
                           ([Str ''Failed to install dependencies: ''] @ message error)
                           [(''operation'', Str ''installDependencies''),
                            (''filePath'', Str ?p)]),
                 h1 @ [SpinnerStart ''Installing dependencies...'', Exec ''npm install'' ?p,
                       SpinnerFail ''Failed to install dependencies''])"
      by simp
    from generate_after[OF until[unfolded i]]
    have "generate nd template config h
              = (Throws (ErrorFactory_filesystem
                           ([Str ''Failed to generate project: '',
                             Str ''Failed to install dependencies: ''] @ message error)
                           (generate_context config)),
                 h1 @ [SpinnerStart ''Installing dependencies...'', Exec ''npm install'' ?p,
                       SpinnerFail ''Failed to install dependencies''])"
      by (simp add: ErrorFactory_dependency_def new_CLIError_def)
    with i True show ?thesis by simp
  next
    case False
    with inst have i: "installDependencies nd ?p h1
                = (Returns (),
                   h1 @ [SpinnerStart ''Installing dependencies...'', Exec ''npm install'' ?p,
                         SpinnerFail ''Failed to install dependencies'',
                         Log [Str ''You can install them manually later with: npm install'']])"
      by simp
    note g = generate_after[OF until[unfolded i]]
    have none: "template_postInstall template = None \<longrightarrow>
                     generate nd template config h
                       = (Returns (),
                          h1 @ [SpinnerStart ''Installing dependencies...'',
                                Exec ''npm install'' ?p,
                                SpinnerFail ''Failed to install dependencies'',
                                Log [Str ''You can install them manually later with: npm install'']])"
      using g by simp
    have some: "template_postInstall template \<noteq> None \<longrightarrow>
                     PostInstall ?p (config_answers config)
                       \<in> set (snd (generate nd template config h))"
      using g by (auto split: option.splits)
    from i none some False show ?thesis by simp
  qed
qed

lemma demo_packageJson:
  "packageJson (demo_template post) demo_config
     = manifest_as_specified ''app'' (Some [(''dev'', ''vite'')])
         (Some [(''react'', ''^18.2.0'')]) None None"
  by (simp add: packageJson_def manifest_as_specified_def demo_template_def demo_config_def
      record_obj_def or_empty_def dependency_map_def)

lemma demo_write_project:
  "write_project (demo_node x) (demo_template post) demo_config ''/tmp/app'' []
     = (Returns (), demo_written)"
  unfolding write_project_def generateFiles_def generatePackageJson_def writeJson_def
    demo_packageJson
  by (simp add: writeFile_def ensureDir_def bind_io_def catch_io_def call_def emit_def
      return_io_def skipped_def content_of_def demo_written_def demo_node_def
      demo_template_def demo_config_def demo_dirname_def)

lemma demo_paths:
  "projectPath_of (demo_node x) demo_config = ''/tmp/app''"
  by (simp add: projectPath_of_def demo_node_def demo_config_def)

text \<open>
  Claim C1. The claim has a failure of the install command downgraded: reported, a hint
  for manual recovery printed, \<open>postInstall\<close> still invoked, \<open>generate\<close> not aborted.
  The source does not do so. On the failure the process runner produces, an \<open>Error\<close>,
  \<open>installDependencies\<close> throws before the line that prints the hint, and the \<open>catch\<close>
  of \<open>generate\<close> turns the dependency error into a rejection of the filesystem category,
  where the documentation of \<open>generate\<close> announces a \<open>DependencyError\<close>. On the template
  and configuration below, which declare dependencies and a \<open>postInstall\<close> handler,
  \<open>generate\<close> rejects, and what it did ends with the failed spinner: no hint, no call of
  \<open>postInstall\<close>.
\<close>

theorem install_failure_rejects:
  "template_dependencies (demo_template (Some post_ok)) \<noteq> None
   \<and> template_postInstall (demo_template (Some post_ok)) = Some post_ok
   \<and> get_answer (config_answers demo_config) ''installDeps'' \<noteq> Bool False
   \<and> instanceof_Error npm_failure
   \<and> generate (demo_node (Throws npm_failure)) (demo_template (Some post_ok)) demo_config []
       = (Throws (ErrorFactory_filesystem
                    [Str ''Failed to generate project: '', Str ''Failed to install dependencies: '',
                     Str ''Command failed: npm install'']
                    (generate_context demo_config)),
          demo_written @ install_trace)
   \<and> error_class_of (ErrorFactory_filesystem
                        [Str ''Failed to generate project: '',
                         Str ''Failed to install dependencies: '',
                         Str ''Command failed: npm install'']
                        (generate_context demo_config)) = Some FileSystemError
   \<and> install_hint \<notin> set (demo_written @ install_trace)
   \<and> PostInstall ''/tmp/app'' (config_answers demo_config) \<notin> set (demo_written @ install_trace)"
proof -
  have u: "until_postInstall (demo_node (Throws npm_failure)) (demo_template (Some post_ok))
             demo_config ''/tmp/app'' []
           = (Throws (ErrorFactory_dependency
                        [Str ''Failed to install dependencies: '', Str ''Command failed: npm install'']
                        [(''operation'', Str ''installDependencies''), (''filePath'', Str ''/tmp/app'')]),
              demo_written @ install_trace)"
    by (simp add: until_postInstall_def demo_write_project bind_io_def)
      (simp add: install_step_def wants_install_def installDependencies_def bind_io_def
        catch_io_def call_def emit_def throw_io_def install_trace_def demo_node_def
        demo_template_def demo_config_def get_answer_def Object_prototype_def npm_failure_def)
  have g: "generate (demo_node (Throws npm_failure)) (demo_template (Some post_ok)) demo_config []
       = (Throws (ErrorFactory_filesystem
                    [Str ''Failed to generate project: '', Str ''Failed to install dependencies: '',
                     Str ''Command failed: npm install'']
                    (generate_context demo_config)),
          demo_written @ install_trace)"
    using generate_after[of "demo_node (Throws npm_failure)" "demo_template (Some post_ok)"
        demo_config "[]", unfolded demo_paths, OF u]
    by (simp add: ErrorFactory_dependency_def new_CLIError_def)
  have d: "template_dependencies (demo_template (Some post_ok)) \<noteq> None"
    "template_postInstall (demo_template (Some post_ok)) = Some post_ok"
    "get_answer (config_answers demo_config) ''installDeps'' \<noteq> Bool False"
    "instanceof_Error npm_failure"
    by (simp_all add: demo_template_def demo_config_def get_answer_def Object_prototype_def
        npm_failure_def)
  have c: "error_class_of (ErrorFactory_filesystem
                        [Str ''Failed to generate project: '',
                         Str ''Failed to install dependencies: '',
                         Str ''Command failed: npm install'']
                        (generate_context demo_config)) = Some FileSystemError"
    by (simp add: ErrorFactory_filesystem_def new_CLIError_def)
  have n: "install_hint \<notin> set (demo_written @ install_trace)"
    "PostInstall ''/tmp/app'' (config_answers demo_config) \<notin> set (demo_written @ install_trace)"
    by (simp_all add: demo_written_def install_trace_def install_hint_def)
  from d g c n show ?thesis by simp
qed

subsection \<open>The \<open>postInstall\<close> handler\<close>

text \<open>
  Claim C3, as amended. When the template declares \<open>postInstall\<close> and the steps before
  it have succeeded (the project is written, manifest included, and the install step is
  over), \<open>generate\<close> calls the handler with the project path and the answers as its last
  action and waits for it: it returns when the handler's promise fulfils and stays pending
  while it does. A rejection is fatal: \<open>generate\<close> rejects, with the rejection wrapped by
  its own \<open>catch\<close> as a filesystem-category error when it is an \<open>Error\<close>, and as it is
  otherwise.
\<close>

theorem postInstall_outcome:
  assumes reached: "until_postInstall nd template config (projectPath_of nd config) h
                      = (Returns (), h2)"
    and declared: "template_postInstall template = Some f"
  shows "snd (generate nd template config h)
           = h2 @ [PostInstall (projectPath_of nd config) (config_answers config)]
         \<and> WriteFile (path_join nd (projectPath_of nd config) ''package.json'')
              (JSON_stringify nd (packageJson template config) 2) \<in> set h2
         \<and> (f h2 (projectPath_of nd config) (config_answers config) = Returns () \<longrightarrow>
              fst (generate nd template config h) = Returns ())
         \<and> (f h2 (projectPath_of nd config) (config_answers config) = Pending \<longrightarrow>
              fst (generate nd template config h) = Pending)
         \<and> (f h2 (projectPath_of nd config) (config_answers config) = Throws e \<longrightarrow>
              fst (generate nd template config h)
                = Throws (if instanceof_Error e
                          then ErrorFactory_filesystem
                                 ([Str ''Failed to generate project: ''] @ message e)
                                 (generate_context config)
                          else e))"
  using generate_after[OF reached] declared until_postInstall_ReturnsD[OF reached]
  by (auto split: outcome.splits)

theorem postInstall_outcome_witness:
  "until_postInstall (demo_node (Returns ())) (demo_template (Some post_fails)) demo_config
     ''/tmp/app'' []
     = (Returns (),
        demo_written @ [SpinnerStart ''Installing dependencies...'',
                        Exec ''npm install'' ''/tmp/app'',
                        SpinnerSucceed ''Dependencies installed successfully''])
   \<and> template_postInstall (demo_template (Some post_fails)) = Some post_fails
   \<and> generate (demo_node (Returns ())) (demo_template (Some post_fails)) demo_config []
       = (Throws (ErrorFactory_filesystem [Str ''Failed to generate project: '', Str ''boom'']
                    (generate_context demo_config)),
          demo_written @ [SpinnerStart ''Installing dependencies...'',
                          Exec ''npm install'' ''/tmp/app'',
                          SpinnerSucceed ''Dependencies installed successfully'',
                          PostInstall ''/tmp/app'' (config_answers demo_config)])
   \<and> fst (generate (demo_node (Returns ())) (demo_template (Some post_ok)) demo_config [])
       = Returns ()"
proof -
  let ?h2 = "demo_written @ [SpinnerStart ''Installing dependencies...'',
                             Exec ''npm install'' ''/tmp/app'',
                             SpinnerSucceed ''Dependencies installed successfully'']"
  have u: "until_postInstall (demo_node (Returns ())) (demo_template (Some post)) demo_config
             ''/tmp/app'' [] = (Returns (), ?h2)" for post
    by (simp add: until_postInstall_def demo_write_project bind_io_def)
      (simp add: install_step_def wants_install_def installDependencies_def bind_io_def
        catch_io_def call_def emit_def throw_io_def demo_node_def demo_template_def
        demo_config_def get_answer_def Object_prototype_def)
  have t: "template_postInstall (demo_template (Some post)) = Some post" for post
    by (simp add: demo_template_def)
  note bad = postInstall_outcome[of "demo_node (Returns ())" "demo_template (Some post_fails)"
      demo_config "[]" ?h2 post_fails post_failure, unfolded demo_paths, OF u t]
  note good = postInstall_outcome[of "demo_node (Returns ())" "demo_template (Some post_ok)"
      demo_config "[]" ?h2 post_ok, unfolded demo_paths, OF u t]
  have f: "post_fails ?h2 ''/tmp/app'' (config_answers demo_config) = Throws post_failure"
    "post_ok ?h2 ''/tmp/app'' (config_answers demo_config) = Returns ()"
    by (simp_all add: post_fails_def post_ok_def)
  from bad f(1) have "generate (demo_node (Returns ())) (demo_template (Some post_fails))
                        demo_config []
       = (Throws (ErrorFactory_filesystem [Str ''Failed to generate project: '', Str ''boom'']
                    (generate_context demo_config)),
          ?h2 @ [PostInstall ''/tmp/app'' (config_answers demo_config)])"
    by (simp add: prod_eq_iff post_failure_def)
  moreover from good f(2)
  have "fst (generate (demo_node (Returns ())) (demo_template (Some post_ok)) demo_config [])
          = Returns ()"
    by blast
  ultimately show ?thesis using u[of post_fails] t[of post_fails] by simp
qed

text \<open>
  The claim as stated has the rejection reach the caller as it is. The handler rejects
  with the error \<open>boom\<close>; what \<open>generate\<close> rejects with is another error, of the
  filesystem category, that carries the message.
\<close>

theorem postInstall_rejection_counterexample:
  "post_fails (demo_written @ [SpinnerStart ''Installing dependencies...'',
                               Exec ''npm install'' ''/tmp/app'',
                               SpinnerSucceed ''Dependencies installed successfully''])
     ''/tmp/app'' (config_answers demo_config) = Throws post_failure
   \<and> fst (generate (demo_node (Returns ())) (demo_template (Some post_fails)) demo_config [])
       = Throws (ErrorFactory_filesystem [Str ''Failed to generate project: '', Str ''boom'']
                   (generate_context demo_config))
   \<and> fst (generate (demo_node (Returns ())) (demo_template (Some post_fails)) demo_config [])
       \<noteq> Throws post_failure"
proof -
  let ?h2 = "demo_written @ [SpinnerStart ''Installing dependencies...'',
                             Exec ''npm install'' ''/tmp/app'',
                             SpinnerSucceed ''Dependencies installed successfully'']"
  have u: "until_postInstall (demo_node (Returns ())) (demo_template (Some post_fails)) demo_config
             ''/tmp/app'' [] = (Returns (), ?h2)"
    by (simp add: until_postInstall_def demo_write_project bind_io_def)
      (simp add: install_step_def wants_install_def installDependencies_def bind_io_def
        catch_io_def call_def emit_def throw_io_def demo_node_def demo_template_def
        demo_config_def get_answer_def Object_prototype_def)
  have g: "fst (generate (demo_node (Returns ())) (demo_template (Some post_fails)) demo_config [])
       = Throws (ErrorFactory_filesystem [Str ''Failed to generate project: '', Str ''boom'']
                   (generate_context demo_config))"
    using generate_after[of "demo_node (Returns ())" "demo_template (Some post_fails)"
        demo_config "[]", unfolded demo_paths, OF u]
    by (simp add: demo_template_def post_fails_def post_failure_def)
  have n: "ErrorFactory_filesystem [Str ''Failed to generate project: '', Str ''boom'']
             (generate_context demo_config) \<noteq> post_failure"
    by (simp add: ErrorFactory_filesystem_def new_CLIError_def post_failure_def)
  from g n show ?thesis by (simp add: post_fails_def)
qed

end
